theory Spec2Isabelle
  imports Main "HOL-Library.AList"
begin

section \<open>Values and errors\<close>

text \<open>
  JavaScript values as far as the modelled functions inspect them. An object is the list of
  its own enumerable entries in enumeration order; numbers are integers.
\<close>

datatype json =
    JNull
  | JBool bool
  | JNum int
  | JStr string
  | JArr "json list"
  | JObj "(string \<times> json) list"

text \<open>
  Every \<^verbatim>\<open>throw\<close> of the modelled code is a value. \<open>TypeError\<close> is the error the
  JavaScript runtime raises when a property of \<^verbatim>\<open>undefined\<close> or \<^verbatim>\<open>null\<close> is read or a
  missing method is called, \<open>ReferenceError\<close> the one it raises when an identifier is
  read that no scope declares.
\<close>

datatype error =
    OnlyPrimitivesSupported
  | IntersectsNotSupported
  | TypeError
  | ReferenceError
  | MergeError

section \<open>The filter converter of the SQL compiler\<close>

subsection \<open>Abstract filter nodes\<close>

text \<open>
  The fields of a filter node that \<^verbatim>\<open>convertFilter\<close> reads:
  \<^verbatim>\<open>filter.target.type\<close>, \<^verbatim>\<open>filter.target.field\<close>, \<^verbatim>\<open>filter.operation\<close>,
  \<^verbatim>\<open>filter.compareTo.type\<close> and \<^verbatim>\<open>filter.compareTo.values\<close>. Type tags and operation
  names are the strings the code compares them with.
\<close>

record abstractQueryTarget =
  target_type :: string
  target_field :: string

record abstractQueryCompareTo =
  compareTo_type :: string
  compareTo_values :: "json list"

record abstractQueryNodeCondition =
  target :: abstractQueryTarget
  operation :: string
  compareTo :: abstractQueryCompareTo

text \<open>
  Modelled from the spec: the declaration of \<^verbatim>\<open>AbstractQueryFilterNode\<close> is not part of the
  sources. The spec's condition tree is polymorphic over a condition and a logical node with
  an operator and a list of children; a logical node has no \<^verbatim>\<open>target\<close> property.
\<close>

datatype abstractQueryFilterNode =
    Condition abstractQueryNodeCondition
  | Logical string "abstractQueryFilterNode list"

subsection \<open>The compiled where clause\<close>

record sqlTarget =
  column :: string
  table :: string
  sqlTarget_type :: string

record sqlCompareTo =
  sqlCompareTo_type :: string
  parameterIndexes :: "nat list"

record abstractSqlQueryCondition =
  condition_type :: string
  negate :: bool
  condition_operation :: string
  condition_target :: sqlTarget
  condition_compareTo :: sqlCompareTo

record whereAndParameters =
  where_clause :: abstractSqlQueryCondition
  parameters :: "json list"

subsection \<open>convertFilter\<close>

text \<open>
  The body of \<^verbatim>\<open>convertFilter\<close> reads the identifier \<^verbatim>\<open>firstParameterIndex\<close>. The
  documentation of the function lists it as a parameter, but the signature is
  \<^verbatim>\<open>(filter, collection, generator)\<close>, the file declares no variable of that name and both of
  its imports are type imports: reading the identifier throws.
\<close>

definition firstParameterIndex :: "error + nat" where
  "firstParameterIndex = Inl ReferenceError"

text \<open>
  \<^verbatim>\<open>convertFilter(filter, collection, generator)\<close>. The generator of parameter indexes is a
  mutable object; its state is passed in and returned. The body never asks it for a value.
  Reading \<^verbatim>\<open>filter.target.type\<close> on a logical node reads a property of \<^verbatim>\<open>undefined\<close>.
  The statement \<^verbatim>\<open>const parameterIndexes = [firstParameterIndex]\<close> comes after the two
  guards and before the \<^verbatim>\<open>return\<close>.
\<close>

fun convertFilter ::
  "abstractQueryFilterNode \<Rightarrow> string \<Rightarrow> nat \<Rightarrow> (error + whereAndParameters) \<times> nat"
where
  "convertFilter (Logical operator childNodes) collection generator = (Inl TypeError, generator)"
| "convertFilter (Condition node) collection generator =
     (if target_type (target node) \<noteq> ''primitive'' \<or> compareTo_type (compareTo node) \<noteq> ''value''
      then (Inl OnlyPrimitivesSupported, generator)
      else if operation node = ''intersects'' \<or> operation node = ''intersects_bounding_box''
      then (Inl IntersectsNotSupported, generator)
      else
        (case firstParameterIndex of
           Inl e \<Rightarrow> (Inl e, generator)
         | Inr index \<Rightarrow>
             (Inr \<lparr> where_clause =
                      \<lparr> condition_type = ''condition'',
                        negate = False,
                        condition_operation = operation node,
                        condition_target =
                          \<lparr> column = target_field (target node),
                            table = collection,
                            sqlTarget_type = ''primitive'' \<rparr>,
                        condition_compareTo =
                          \<lparr> sqlCompareTo_type = ''value'',
                            parameterIndexes = [index] \<rparr> \<rparr>,
                    parameters = compareTo_values (compareTo node) \<rparr>,
              generator)))"

section \<open>The PostgreSQL driver and the nested-many merge\<close>

subsection \<open>Abstract SQL queries\<close>

text \<open>
  A row of a result stream is a JavaScript object. A readable stream is the list of the
  chunks it delivers, in delivery order.
\<close>

type_synonym row = "(string \<times> json) list"

text \<open>
  The abstract SQL query as the driver and the test of the merge use it: \<^verbatim>\<open>clauses\<close>,
  \<^verbatim>\<open>parameters\<close>, \<^verbatim>\<open>aliasMapping\<close> and \<^verbatim>\<open>nestedManys\<close>; a nested-many entry carries
  \<^verbatim>\<open>internalIdentifierFields\<close>, \<^verbatim>\<open>collection\<close>, \<^verbatim>\<open>externalKeyFields\<close>, \<^verbatim>\<open>alias\<close> and the
  closure \<^verbatim>\<open>queryGenerator\<close>. The clauses are not inspected by the modelled code. The
  selectors \<open>query_parameters\<close>, \<open>nestedMany_collection\<close> and \<open>nestedMany_alias\<close> stand for
  \<^verbatim>\<open>parameters\<close>, \<^verbatim>\<open>collection\<close> and \<^verbatim>\<open>alias\<close>, names that are taken.
\<close>

datatype 'c abstractSqlQuery =
  AbstractSqlQuery
    (clauses: 'c)
    (query_parameters: "json list")
    (aliasMapping: "(string \<times> string list) list")
    (nestedManys: "'c abstractSqlNestedMany list")
and 'c abstractSqlNestedMany =
  AbstractSqlNestedMany
    (internalIdentifierFields: "string list")
    (nestedMany_collection: string)
    (externalKeyFields: "string list")
    (nestedMany_alias: string)
    (queryGenerator: "json list \<Rightarrow> 'c abstractSqlQuery")

subsection \<open>makeSubQueriesAndMergeWithRoot\<close>

text \<open>
  The values of the identifier fields of a root chunk, in field order. A field that is
  missing or \<^verbatim>\<open>null\<close> has no value.
\<close>

fun internalRelationalFieldValues :: "row \<Rightarrow> string list \<Rightarrow> json list option" where
  "internalRelationalFieldValues rootChunk [] = Some []"
| "internalRelationalFieldValues rootChunk (fieldName # fieldNames) =
     (case map_of rootChunk fieldName of
        None \<Rightarrow> None
      | Some JNull \<Rightarrow> None
      | Some v \<Rightarrow>
          (case internalRelationalFieldValues rootChunk fieldNames of
             None \<Rightarrow> None
           | Some vs \<Rightarrow> Some (v # vs)))"

text \<open>
  Modelled from the spec: the module \<^verbatim>\<open>nested-many\<close> that exports
  \<^verbatim>\<open>makeSubQueriesAndMergeWithRoot\<close> is not part of the sources; its caller and its test are.
  The definitions follow the merge contract of the spec, at the granularity of one sub-query
  per parent row. For every chunk of the root stream, in stream order, and every nested-many
  entry, in list order, the merge reads the identifier fields of the chunk (a missing value
  is a MergeError that aborts the merge), asks the entry's \<^verbatim>\<open>queryGenerator\<close> for the
  sub-query, runs it through the \<^verbatim>\<open>queryDatabase\<close> function it was given, merges the rows
  of the answer with the nested-many entries of the sub-query itself (grandchildren recurse
  through the same merge) and attaches the resulting rows, as an array, to the chunk under
  the entry's \<^verbatim>\<open>alias\<close>. The recursion is on the structure of the entry: the sub-queries
  of its generator are its parts. The database function threads a state \<open>'s\<close>. (The test
  \<^verbatim>\<open>nested-many logic\<close> of the module expects the children under the entry's
  \<^verbatim>\<open>collection\<close>; the spec says \<^verbatim>\<open>alias\<close>, and the definitions follow the spec.)
\<close>

type_synonym ('c, 's) queryDatabase = "'c abstractSqlQuery \<Rightarrow> 's \<Rightarrow> (error + row list) \<times> 's"

text \<open>
  Modelled from the spec: one chunk, given what each nested-many entry does to it.
\<close>

fun mergeChunk ::
  "(row \<Rightarrow> row \<Rightarrow> 's \<Rightarrow> (error + row) \<times> 's) list \<Rightarrow> row \<Rightarrow> row \<Rightarrow> 's \<Rightarrow> (error + row) \<times> 's"
where
  "mergeChunk [] rootChunk merged s = (Inr merged, s)"
| "mergeChunk (mergeEntry # rest) rootChunk merged s =
     (case mergeEntry rootChunk merged s of
        (Inl e, s') \<Rightarrow> (Inl e, s')
      | (Inr merged', s') \<Rightarrow> mergeChunk rest rootChunk merged' s')"

text \<open>
  Modelled from the spec: the chunks of a stream, in stream order.
\<close>

fun mergeStream ::
  "(row \<Rightarrow> row \<Rightarrow> 's \<Rightarrow> (error + row) \<times> 's) list \<Rightarrow> row list \<Rightarrow> 's
   \<Rightarrow> (error + row list) \<times> 's"
where
  "mergeStream mergeEntries [] s = (Inr [], s)"
| "mergeStream mergeEntries (rootChunk # rootStream) s =
     (case mergeChunk mergeEntries rootChunk rootChunk s of
        (Inl e, s') \<Rightarrow> (Inl e, s')
      | (Inr merged, s') \<Rightarrow>
          (case mergeStream mergeEntries rootStream s' of
             (Inl e, s'') \<Rightarrow> (Inl e, s'')
           | (Inr mergedStream, s'') \<Rightarrow> (Inr (merged # mergedStream), s'')))"

text \<open>
  Modelled from the spec: \<open>mergeSubQuery\<close> merges the rows that answer a query with the
  nested-many entries of that query, \<open>mergeNestedMany\<close> attaches the children of one entry
  to one chunk.
\<close>

primrec mergeSubQuery ::
  "'c abstractSqlQuery \<Rightarrow> ('c, 's) queryDatabase \<Rightarrow> row list \<Rightarrow> 's \<Rightarrow> (error + row list) \<times> 's"
and mergeNestedMany ::
  "'c abstractSqlNestedMany \<Rightarrow> ('c, 's) queryDatabase \<Rightarrow> row \<Rightarrow> row \<Rightarrow> 's
   \<Rightarrow> (error + row) \<times> 's"
where
  "mergeSubQuery (AbstractSqlQuery c p a manys) =
     (\<lambda>queryDatabase subData s.
        mergeStream (map (\<lambda>nestedMany. mergeNestedMany nestedMany queryDatabase) manys) subData s)"
| "mergeNestedMany (AbstractSqlNestedMany identifierFields coll keyFields aliasName generator) =
     (\<lambda>queryDatabase rootChunk merged s.
        case internalRelationalFieldValues rootChunk identifierFields of
          None \<Rightarrow> (Inl MergeError, s)
        | Some vals \<Rightarrow>
            (case queryDatabase (generator vals) s of
               (Inl e, s') \<Rightarrow> (Inl e, s')
             | (Inr subData, s') \<Rightarrow>
                 (case mergeSubQuery (generator vals) queryDatabase subData s' of
                    (Inl e, s'') \<Rightarrow> (Inl e, s'')
                  | (Inr children, s'') \<Rightarrow>
                      (Inr (AList.update aliasName (JArr (map JObj children)) merged), s''))))"

text \<open>
  Modelled from the spec: \<^verbatim>\<open>makeSubQueriesAndMergeWithRoot(rootStream, nestedManys,
  queryDatabase)\<close>, with the arguments in the order of the call in the driver.
\<close>

definition makeSubQueriesAndMergeWithRoot ::
  "row list \<Rightarrow> 'c abstractSqlNestedMany list \<Rightarrow> ('c, 's) queryDatabase \<Rightarrow> 's
   \<Rightarrow> (error + row list) \<times> 's"
where
  "makeSubQueriesAndMergeWithRoot rootStream manys queryDatabase s =
     mergeStream (map (\<lambda>nestedMany. mergeNestedMany nestedMany queryDatabase) manys) rootStream s"

text \<open>
  The database answers a query and every sub-query below it: the answer to the query is a
  list of rows, each with a value for the identifier fields of the query's own nested-many
  entries, and the same holds for every sub-query that these entries generate.
\<close>

primrec answered :: "'c abstractSqlQuery \<Rightarrow> ('c, 's) queryDatabase \<Rightarrow> bool"
and entryAnswered :: "'c abstractSqlNestedMany \<Rightarrow> ('c, 's) queryDatabase \<Rightarrow> bool"
where
  "answered (AbstractSqlQuery c p a manys) =
     (\<lambda>queryDatabase.
        (\<forall>s. \<exists>subData. fst (queryDatabase (AbstractSqlQuery c p a manys) s) = Inr subData
            \<and> (\<forall>chunk \<in> set subData. \<forall>nestedMany \<in> set manys.
                  internalRelationalFieldValues chunk (internalIdentifierFields nestedMany) \<noteq> None))
        \<and> (\<forall>isAnswered \<in> set (map (\<lambda>nestedMany. entryAnswered nestedMany queryDatabase) manys).
              isAnswered))"
| "entryAnswered (AbstractSqlNestedMany identifierFields coll keyFields aliasName generator) =
     (\<lambda>queryDatabase. \<forall>vals. answered (generator vals) queryDatabase)"

text \<open>A root chunk without the fields that hold the children of the nested-many entries.\<close>

definition withoutNestedManys :: "'c abstractSqlNestedMany list \<Rightarrow> row \<Rightarrow> row" where
  "withoutNestedManys manys chunk =
     filter (\<lambda>entry. fst entry \<notin> set (map nestedMany_alias manys)) chunk"

subsection \<open>The driver's query method\<close>

text \<open>
  \<^verbatim>\<open>DataDriverPostgres.query\<close>. \<^verbatim>\<open>convertQuery\<close> and \<^verbatim>\<open>makeSubQueriesAndMergeWithRoot\<close> are
  imported from a package that is not part of the sources, and \<^verbatim>\<open>queryDB\<close> is the bound
  method \<^verbatim>\<open>queryDatabase\<close>, which runs a statement on the connection pool: all three are
  arguments. The state \<open>'s\<close> is what the database calls change; a rejected promise is \<open>Inl\<close>.
\<close>

definition query ::
  "('q \<Rightarrow> error + 'c abstractSqlQuery)
   \<Rightarrow> ('c abstractSqlQuery \<Rightarrow> 's \<Rightarrow> (error + row list) \<times> 's)
   \<Rightarrow> (row list \<Rightarrow> 'c abstractSqlNestedMany list
        \<Rightarrow> ('c abstractSqlQuery \<Rightarrow> 's \<Rightarrow> (error + row list) \<times> 's) \<Rightarrow> 's \<Rightarrow> (error + row list) \<times> 's)
   \<Rightarrow> 'q \<Rightarrow> 's \<Rightarrow> (error + row list) \<times> 's"
where
  "query convertQuery queryDB mergeWithRoot q s =
     (case convertQuery q of
        Inl e \<Rightarrow> (Inl e, s)
      | Inr abstractSql \<Rightarrow>
          (case queryDB abstractSql s of
             (Inl e, s') \<Rightarrow> (Inl e, s')
           | (Inr rootStream, s') \<Rightarrow>
               if length (nestedManys abstractSql) = 0 then (Inr rootStream, s')
               else mergeWithRoot rootStream (nestedManys abstractSql) queryDB s'))"

text \<open>
  A database function that also records, in call order, the queries it is asked to run.
\<close>

definition recording ::
  "('c abstractSqlQuery \<Rightarrow> 's \<Rightarrow> (error + row list) \<times> 's)
   \<Rightarrow> 'c abstractSqlQuery \<Rightarrow> 'c abstractSqlQuery list \<times> 's
   \<Rightarrow> (error + row list) \<times> ('c abstractSqlQuery list \<times> 's)"
where
  "recording queryDB abstractSql ls =
     (case queryDB abstractSql (snd ls) of (r, s') \<Rightarrow> (r, (fst ls @ [abstractSql], s')))"

section \<open>Batched fetching of one-to-many children in runAst\<close>

text \<open>
  The \<^verbatim>\<open>o2m\<close> branch of the loop over the nested nodes in \<^verbatim>\<open>run\<close>. \<^verbatim>\<open>runNested limit offset\<close>
  is the recursive call \<^verbatim>\<open>runAst(node, schema, { knex, nested: true })\<close> on the nested node
  with \<^verbatim>\<open>query.limit\<close> and \<^verbatim>\<open>query.offset\<close> set: it changes the database state, and returns
  \<^verbatim>\<open>null\<close> (\<open>None\<close>) or the items, or throws. \<^verbatim>\<open>mergeWithParentItems\<close> is imported from a
  file that is not part of the sources; with the schema and the nested node fixed it is a
  function of the nested items and the parent items. The batch size is the number
  \<^verbatim>\<open>env['RELATIONAL_BATCH_SIZE']\<close>. The loop has no bound of its own: not returning is \<open>None\<close>.
  It returns the parent items and the final value of \<^verbatim>\<open>batchCount\<close>.
\<close>

partial_function (option) o2mBatches ::
  "(int \<Rightarrow> int \<Rightarrow> 's \<Rightarrow> (error + 'item list option) \<times> 's) \<Rightarrow> ('item list \<Rightarrow> 'items \<Rightarrow> 'items)
   \<Rightarrow> int \<Rightarrow> nat \<Rightarrow> 'items \<Rightarrow> 's \<Rightarrow> ((error + 'items \<times> nat) \<times> 's) option"
where
  "o2mBatches runNested mergeWithParentItems batchSize batchCount items s =
     (case runNested batchSize (int batchCount * batchSize) s of
        (Inl e, s') \<Rightarrow> Some (Inl e, s')
      | (Inr nestedItems, s') \<Rightarrow>
          (let items' = (case nestedItems of
                           Some fetched \<Rightarrow> mergeWithParentItems fetched items
                         | None \<Rightarrow> items)
           in if (case nestedItems of
                    None \<Rightarrow> True
                  | Some fetched \<Rightarrow> int (length fetched) < batchSize)
              then Some (Inr (items', batchCount + 1), s')
              else o2mBatches runNested mergeWithParentItems batchSize (batchCount + 1) items' s'))"

text \<open>
  The batches as the claim words them: batch number \<open>b\<close> asks for \<open>batchSize\<close> items at
  offset \<open>b * batchSize\<close> and, unless the answer is \<^verbatim>\<open>null\<close>, is merged into the parent items.
\<close>

fun mergeBatch ::
  "(int \<Rightarrow> int \<Rightarrow> 's \<Rightarrow> (error + 'item list option) \<times> 's) \<Rightarrow> ('item list \<Rightarrow> 'items \<Rightarrow> 'items)
   \<Rightarrow> int \<Rightarrow> nat \<Rightarrow> 'items \<times> 's \<Rightarrow> 'items \<times> 's"
where
  "mergeBatch runNested mergeWithParentItems batchSize b (items, s) =
     (case runNested batchSize (int b * batchSize) s of
        (Inr (Some fetched), s') \<Rightarrow> (mergeWithParentItems fetched items, s')
      | (Inr None, s') \<Rightarrow> (items, s')
      | (Inl e, s') \<Rightarrow> (items, s'))"

fun afterBatches ::
  "(int \<Rightarrow> int \<Rightarrow> 's \<Rightarrow> (error + 'item list option) \<times> 's) \<Rightarrow> ('item list \<Rightarrow> 'items \<Rightarrow> 'items)
   \<Rightarrow> int \<Rightarrow> nat \<Rightarrow> nat \<Rightarrow> 'items \<times> 's \<Rightarrow> 'items \<times> 's"
where
  "afterBatches runNested mergeWithParentItems batchSize b 0 st = st"
| "afterBatches runNested mergeWithParentItems batchSize b (Suc k) st =
     afterBatches runNested mergeWithParentItems batchSize (Suc b) k
       (mergeBatch runNested mergeWithParentItems batchSize b st)"

text \<open>The answer to fetch number \<open>k\<close> (counted from 0) of a loop started at batch \<open>b\<close>.\<close>

definition batchAnswer ::
  "(int \<Rightarrow> int \<Rightarrow> 's \<Rightarrow> (error + 'item list option) \<times> 's) \<Rightarrow> ('item list \<Rightarrow> 'items \<Rightarrow> 'items)
   \<Rightarrow> int \<Rightarrow> nat \<Rightarrow> 'items \<times> 's \<Rightarrow> nat \<Rightarrow> error + 'item list option"
where
  "batchAnswer runNested mergeWithParentItems batchSize b st k =
     fst (runNested batchSize (int (b + k) * batchSize)
            (snd (afterBatches runNested mergeWithParentItems batchSize b k st)))"

fun fullBatch :: "int \<Rightarrow> error + 'item list option \<Rightarrow> bool" where
  "fullBatch batchSize (Inr (Some fetched)) = (batchSize \<le> int (length fetched))"
| "fullBatch batchSize (Inr None) = False"
| "fullBatch batchSize (Inl e) = False"

fun lastBatch :: "int \<Rightarrow> error + 'item list option \<Rightarrow> bool" where
  "lastBatch batchSize (Inr (Some fetched)) = (int (length fetched) < batchSize)"
| "lastBatch batchSize (Inr None) = True"
| "lastBatch batchSize (Inl e) = False"

section \<open>Filters on the knex query builder\<close>

subsection \<open>Relations, joins and recorded builder calls\<close>

text \<open>
  The fields of a relation row that \<^verbatim>\<open>applyFilter\<close> reads. The \<^verbatim>\<open>one_\<close> side may be
  \<^verbatim>\<open>null\<close>.
\<close>

record relation =
  many_collection :: string
  many_field :: string
  one_collection :: "string option"
  one_field :: "string option"
  one_primary :: "string option"

datatype logical = L_and | L_or

text \<open>
  \<^verbatim>\<open>dbQuery.leftJoin({ [alias]: table }, first, second)\<close>.
\<close>

record leftJoin =
  join_alias :: string
  join_table :: "string option"
  join_first :: string
  join_second :: string

text \<open>
  The knex query builder is an external library: the model records the calls made on a
  builder, with their arguments, in call order. \<open>Contains v\<close> is the template string
  \<^verbatim>\<open>`%${v}%`\<close>. A callback passed to \<^verbatim>\<open>where\<close> or \<^verbatim>\<open>andWhere\<close> receives a fresh builder; the
  calls made on it are the group's body. The constructors with a \<open>logical\<close> are calls made
  through \<^verbatim>\<open>dbQuery[logical]\<close>; the last three are the calls made directly on the builder
  of a callback.
\<close>

datatype whereArg = Value json | Contains json

datatype whereCall =
    Where logical string json
  | WhereNot logical string json
  | WhereOp logical string string whereArg
  | WhereNotOp logical string string whereArg
  | WhereIn logical string json
  | WhereNotIn logical string json
  | WhereNull logical string
  | WhereNotNull logical string
  | WhereBetween logical string json
  | WhereNotBetween logical string json
  | WhereGroup logical "whereCall list"
  | AndWhereGroup logical "whereCall list"
  | WhereInSubQuery logical string queryBuilder
  | DirectWhereNull string
  | DirectWhereNotNull string
  | DirectOrWhere string string json
and queryBuilder =
  QueryBuilder
    (selected: "string list")
    (from_table: "string option")
    (joins: "leftJoin list")
    (wheres: "whereCall list")

definition addWhere :: "whereCall \<Rightarrow> queryBuilder \<Rightarrow> queryBuilder" where
  "addWhere call dbQuery =
     QueryBuilder (selected dbQuery) (from_table dbQuery) (joins dbQuery) (wheres dbQuery @ [call])"

definition addLeftJoin :: "leftJoin \<Rightarrow> queryBuilder \<Rightarrow> queryBuilder" where
  "addLeftJoin j dbQuery =
     QueryBuilder (selected dbQuery) (from_table dbQuery) (joins dbQuery @ [j]) (wheres dbQuery)"

text \<open>The comparisons recorded on a builder, with the bodies of the groups flattened.\<close>

fun comparisons :: "whereCall \<Rightarrow> whereCall list" where
  "comparisons (WhereGroup l body) = concat (map comparisons body)"
| "comparisons (AndWhereGroup l body) = concat (map comparisons body)"
| "comparisons call = [call]"

subsection \<open>JavaScript helpers\<close>

definition startsWithUnderscore :: "string \<Rightarrow> bool" where
  "startsWithUnderscore key = (case key of [] \<Rightarrow> False | c # cs \<Rightarrow> c = CHR ''_'')"

text \<open>A value of type \<^verbatim>\<open>string | null\<close> inside a template string.\<close>

definition templateText :: "string option \<Rightarrow> string" where
  "templateText v = (case v of None \<Rightarrow> ''null'' | Some s \<Rightarrow> s)"

text \<open>\<^verbatim>\<open>a || b\<close> for an \<^verbatim>\<open>a\<close> that is a string or \<^verbatim>\<open>undefined\<close>.\<close>

definition orElse :: "string option \<Rightarrow> string \<Rightarrow> string" where
  "orElse a b = (case a of None \<Rightarrow> b | Some s \<Rightarrow> if s = [] then b else s)"

text \<open>\<^verbatim>\<open>pathParts.join('+')\<close>.\<close>

fun joinPlus :: "string list \<Rightarrow> string" where
  "joinPlus [] = []"
| "joinPlus [p] = p"
| "joinPlus (p # q # ps) = p @ ''+'' @ joinPlus (q # ps)"

text \<open>\<^verbatim>\<open>value.split(',')\<close>.\<close>

fun splitComma :: "string \<Rightarrow> string list" where
  "splitComma [] = [[]]"
| "splitComma (c # cs) =
     (if c = CHR '','' then [] # splitComma cs
      else (case splitComma cs of [] \<Rightarrow> [[c]] | w # ws \<Rightarrow> (c # w) # ws))"

definition splitIfString :: "json \<Rightarrow> json" where
  "splitIfString v = (case v of JStr s \<Rightarrow> JArr (map JStr (splitComma s)) | _ \<Rightarrow> v)"

text \<open>The decimal digits of an array index, as a property name.\<close>

fun showNat :: "nat \<Rightarrow> string" where
  "showNat n =
     (if n < 10 then [''0123456789'' ! n]
      else showNat (n div 10) @ [''0123456789'' ! (n mod 10)])"

text \<open>
  \<^verbatim>\<open>Object.entries(v)\<close>: the entries of an object, the elements of an array under their
  indexes, the characters of a string under their indexes; a number or a boolean has none,
  and \<^verbatim>\<open>Object.entries(null)\<close> throws.
\<close>

definition indexed :: "json list \<Rightarrow> (string \<times> json) list" where
  "indexed xs = zip (map showNat [0..<length xs]) xs"

fun objectEntries :: "json \<Rightarrow> error + (string \<times> json) list" where
  "objectEntries JNull = Inl TypeError"
| "objectEntries (JBool b) = Inr []"
| "objectEntries (JNum n) = Inr []"
| "objectEntries (JStr s) = Inr (indexed (map (\<lambda>c. JStr [c]) s))"
| "objectEntries (JArr xs) = Inr (indexed xs)"
| "objectEntries (JObj entries) = Inr entries"

text \<open>
  \<^verbatim>\<open>Object.keys(v).length\<close>; \<^verbatim>\<open>Object.keys(null)\<close> throws.
\<close>

fun objectKeysLength :: "json \<Rightarrow> error + nat" where
  "objectKeysLength JNull = Inl TypeError"
| "objectKeysLength (JBool b) = Inr 0"
| "objectKeysLength (JNum n) = Inr 0"
| "objectKeysLength (JStr s) = Inr (length s)"
| "objectKeysLength (JArr xs) = Inr (length xs)"
| "objectKeysLength (JObj entries) = Inr (length entries)"

text \<open>
  \<^verbatim>\<open>value.some((subFilter) => Object.keys(subFilter).length === 0)\<close> on an array: it stops at
  the first element without keys.
\<close>

fun someEmpty :: "json list \<Rightarrow> error + bool" where
  "someEmpty [] = Inr False"
| "someEmpty (subFilter # rest) =
     (case objectKeysLength subFilter of
        Inl e \<Rightarrow> Inl e
      | Inr n \<Rightarrow> if n = 0 then Inr True else someEmpty rest)"

subsection \<open>getFilterPath and getOperation\<close>

text \<open>
  \<^verbatim>\<open>getFilterPath(key, value)\<close>. The first key of a non-empty string or array is \<^verbatim>\<open>'0'\<close>,
  which does not start with an underscore, and neither is a plain object: the path ends. A
  number or a boolean has no keys. For the empty object the recursive call receives
  \<^verbatim>\<open>undefined\<close> twice and \<^verbatim>\<open>Object.keys(undefined)\<close> throws; so does \<^verbatim>\<open>Object.keys(null)\<close>.
\<close>

fun getFilterPath :: "string \<Rightarrow> json \<Rightarrow> error + string list" where
  "getFilterPath key JNull = Inl TypeError"
| "getFilterPath key (JObj []) = Inl TypeError"
| "getFilterPath key (JObj ((k, v) # entries)) =
     (if startsWithUnderscore k then Inr [key]
      else (case getFilterPath k v of Inl e \<Rightarrow> Inl e | Inr path \<Rightarrow> Inr (key # path)))"
| "getFilterPath key (JBool b) = Inr [key]"
| "getFilterPath key (JNum n) = Inr [key]"
| "getFilterPath key (JStr s) = Inr [key]"
| "getFilterPath key (JArr xs) = Inr [key]"

text \<open>
  \<^verbatim>\<open>getOperation(key, value)\<close>. For the empty object the recursive call receives the key
  \<^verbatim>\<open>undefined\<close>, and \<^verbatim>\<open>undefined.startsWith\<close> throws.
\<close>

fun getOperation :: "string \<Rightarrow> json \<Rightarrow> error + string \<times> json" where
  "getOperation key value =
     (if startsWithUnderscore key \<and> key \<noteq> ''_and'' \<and> key \<noteq> ''_or'' then Inr (key, value)
      else (case value of
              JObj [] \<Rightarrow> Inl TypeError
            | JObj ((k, v) # entries) \<Rightarrow> getOperation k v
            | _ \<Rightarrow> Inr (''_eq'', value)))"

subsection \<open>The size of a filter\<close>

text \<open>
  The measure by which the recursions over a filter end: a string weighs its length, an
  array or an object the weights of its parts and one for each part. In a list of entries a
  string value counts as nothing, since no recursive call is made on it.
\<close>

fun weight :: "json \<Rightarrow> nat" where
  "weight JNull = 0"
| "weight (JBool b) = 0"
| "weight (JNum n) = 0"
| "weight (JStr s) = length s"
| "weight (JArr xs) = sum_list (map (\<lambda>x. weight x + 1) xs)"
| "weight (JObj entries) = sum_list (map (\<lambda>entry. weight (snd entry) + 1) entries)"

definition entryWeight :: "json \<Rightarrow> nat" where
  "entryWeight v = (case v of JStr s \<Rightarrow> 0 | _ \<Rightarrow> weight v)"

definition entriesWeight :: "(string \<times> json) list \<Rightarrow> nat" where
  "entriesWeight entries = sum_list (map (\<lambda>entry. entryWeight (snd entry) + 1) entries)"

subsection \<open>addJoins\<close>

text \<open>
  The state of the join pass: the builder, the \<^verbatim>\<open>aliasMap\<close> of \<^verbatim>\<open>applyFilter\<close> and the
  number of identifiers drawn so far from \<^verbatim>\<open>nanoid\<close>. \<^verbatim>\<open>nanoid(8)\<close> returns a random
  identifier: \<open>nanoid n\<close> is the identifier returned by call number \<open>n\<close>.
\<close>

type_synonym joinState = "queryBuilder \<times> (string \<times> string) list \<times> nat"

text \<open>
  \<^verbatim>\<open>followRelation\<close> inside \<^verbatim>\<open>addJoin\<close>. The parent collection of a recursive call is
  \<^verbatim>\<open>m2oRelation.one_collection\<close>, which may be \<^verbatim>\<open>null\<close>.
\<close>

fun addJoin_followRelation ::
  "relation list \<Rightarrow> (nat \<Rightarrow> string) \<Rightarrow> string list \<Rightarrow> string option \<Rightarrow> string option
   \<Rightarrow> joinState \<Rightarrow> joinState"
where
  "addJoin_followRelation relations nanoid [] parentCollection parentAlias st = st"
| "addJoin_followRelation relations nanoid (p # pathParts) parentCollection parentAlias
     (dbQuery, aliasMap, n) =
     (case find (\<lambda>relation. Some (many_collection relation) = parentCollection
                            \<and> many_field relation = p) relations of
        None \<Rightarrow> (dbQuery, aliasMap, n)
      | Some m2oRelation \<Rightarrow>
          (let alias = nanoid n;
               aliasMap' = AList.update (joinPlus (p # pathParts)) alias aliasMap;
               dbQuery' = addLeftJoin
                 \<lparr> join_alias = alias,
                   join_table = one_collection m2oRelation,
                   join_first = orElse parentAlias (templateText parentCollection) @ ''.''
                                  @ many_field m2oRelation,
                   join_second = alias @ ''.'' @ templateText (one_primary m2oRelation) \<rparr> dbQuery
           in if pathParts \<noteq> []
              then addJoin_followRelation relations nanoid pathParts (one_collection m2oRelation)
                     (Some alias) (dbQuery', aliasMap', Suc n)
              else (dbQuery', aliasMap', Suc n)))"

definition addJoin ::
  "relation list \<Rightarrow> (nat \<Rightarrow> string) \<Rightarrow> string list \<Rightarrow> string \<Rightarrow> joinState \<Rightarrow> joinState"
where
  "addJoin relations nanoid path collection st =
     addJoin_followRelation relations nanoid path (Some collection) None st"

text \<open>
  \<^verbatim>\<open>addJoins(dbQuery, filter, collection)\<close>: the loop over \<^verbatim>\<open>Object.entries(filter)\<close>.
  \<^verbatim>\<open>value.some\<close> and \<^verbatim>\<open>value.forEach\<close> exist on arrays only.
\<close>

function (sequential) addJoins ::
  "relation list \<Rightarrow> (nat \<Rightarrow> string) \<Rightarrow> string \<Rightarrow> json \<Rightarrow> joinState \<Rightarrow> error + joinState"
and addJoins_entries ::
  "relation list \<Rightarrow> (nat \<Rightarrow> string) \<Rightarrow> string \<Rightarrow> (string \<times> json) list \<Rightarrow> joinState
   \<Rightarrow> error + joinState"
and addJoins_forEach ::
  "relation list \<Rightarrow> (nat \<Rightarrow> string) \<Rightarrow> string \<Rightarrow> json list \<Rightarrow> joinState \<Rightarrow> error + joinState"
where
  "addJoins relations nanoid collection flt st =
     (case objectEntries flt of
        Inl e \<Rightarrow> Inl e
      | Inr entries \<Rightarrow> addJoins_entries relations nanoid collection entries st)"
| "addJoins_entries relations nanoid collection [] st = Inr st"
| "addJoins_entries relations nanoid collection ((key, value) # rest) st =
     (if key = ''_or'' \<or> key = ''_and'' then
        (case value of
           JArr subFilters \<Rightarrow>
             (case (if key = ''_or'' then someEmpty subFilters else Inr False) of
                Inl e \<Rightarrow> Inl e
              | Inr True \<Rightarrow> addJoins_entries relations nanoid collection rest st
              | Inr False \<Rightarrow>
                  (case addJoins_forEach relations nanoid collection subFilters st of
                     Inl e \<Rightarrow> Inl e
                   | Inr st' \<Rightarrow> addJoins_entries relations nanoid collection rest st'))
         | _ \<Rightarrow> Inl TypeError)
      else
        (case getFilterPath key value of
           Inl e \<Rightarrow> Inl e
         | Inr filterPath \<Rightarrow>
             addJoins_entries relations nanoid collection rest
               (if length filterPath > 1 then addJoin relations nanoid filterPath collection st
                else st)))"
| "addJoins_forEach relations nanoid collection [] st = Inr st"
| "addJoins_forEach relations nanoid collection (subFilter # rest) st =
     (case addJoins relations nanoid collection subFilter st of
        Inl e \<Rightarrow> Inl e
      | Inr st' \<Rightarrow> addJoins_forEach relations nanoid collection rest st')"
  by pat_completeness auto
termination
proof -
  have zipped: "entriesWeight (zip ks xs) \<le> sum_list (map (\<lambda>x. weight x + 1) xs)" for ks xs
  proof (induction xs arbitrary: ks)
    case Nil
    then show ?case by (simp add: entriesWeight_def)
  next
    case (Cons x xs)
    show ?case
    proof (cases ks)
      case Nil
      then show ?thesis by (simp add: entriesWeight_def)
    next
      case (Cons k ks')
      with Cons.IH[of ks'] show ?thesis
        by (cases x) (simp_all add: entriesWeight_def entryWeight_def)
    qed
  qed
  have chars: "entriesWeight (zip ks (map (\<lambda>c. JStr [c]) s)) \<le> length s" for ks s
  proof (induction s arbitrary: ks)
    case Nil
    then show ?case by (simp add: entriesWeight_def)
  next
    case (Cons c s)
    show ?case
    proof (cases ks)
      case Nil
      then show ?thesis by (simp add: entriesWeight_def)
    next
      case (Cons k ks')
      with Cons.IH[of ks'] show ?thesis by (simp add: entriesWeight_def entryWeight_def)
    qed
  qed
  have own: "entriesWeight entries \<le> sum_list (map (\<lambda>entry. weight (snd entry) + 1) entries)"
    for entries
  proof (induction entries)
    case Nil
    then show ?case by (simp add: entriesWeight_def)
  next
    case (Cons entry entries)
    then show ?case by (cases "snd entry") (simp_all add: entriesWeight_def entryWeight_def)
  qed
  have entries: "entriesWeight entries \<le> weight flt" if "objectEntries flt = Inr entries"
    for flt entries
    using that zipped[of "map showNat [0..<length xs]" xs for xs]
      chars[of "map showNat [0..<length (map (\<lambda>c. JStr [c]) s)]" s for s] own[of entries]
    by (cases flt) (auto simp: indexed_def entriesWeight_def)
  show ?thesis
    by (relation "measure (\<lambda>x. case x of
          Inl (relations, nanoid, collection, flt, st) \<Rightarrow> 2 * weight flt + 1
        | Inr (Inl (relations, nanoid, collection, entries, st)) \<Rightarrow> 2 * entriesWeight entries
        | Inr (Inr (relations, nanoid, collection, subFilters, st)) \<Rightarrow>
            2 * sum_list (map (\<lambda>x. weight x + 1) subFilters))")
      (auto simp: entriesWeight_def entryWeight_def dest!: entries)
qed

subsection \<open>addWhereClauses\<close>

text \<open>
  \<^verbatim>\<open>followRelation\<close> inside \<^verbatim>\<open>getWhereColumn\<close>; the last argument is the variable
  \<^verbatim>\<open>columnName\<close> it assigns.
\<close>

fun getWhereColumn_followRelation ::
  "relation list \<Rightarrow> (string \<times> string) list \<Rightarrow> string list \<Rightarrow> string option \<Rightarrow> string \<Rightarrow> string"
where
  "getWhereColumn_followRelation relations aliasMap [] parentCollection columnName = columnName"
| "getWhereColumn_followRelation relations aliasMap (p # pathParts) parentCollection columnName =
     (case find (\<lambda>relation.
                   (Some (many_collection relation) = parentCollection \<and> many_field relation = p)
                   \<or> (one_collection relation = parentCollection \<and> one_field relation = Some p))
             relations of
        None \<Rightarrow> columnName
      | Some relation \<Rightarrow>
          (let isM2O = (Some (many_collection relation) = parentCollection
                        \<and> many_field relation = p);
               alias = map_of aliasMap (joinPlus (p # pathParts));
               parent = (if isM2O then one_collection relation
                         else Some (many_collection relation));
               columnName' = (if length pathParts = 1
                              then orElse alias (templateText parent) @ ''.'' @ hd pathParts
                              else columnName)
           in if pathParts \<noteq> []
              then getWhereColumn_followRelation relations aliasMap pathParts parent columnName'
              else columnName'))"

definition getWhereColumn ::
  "relation list \<Rightarrow> (string \<times> string) list \<Rightarrow> string list \<Rightarrow> string \<Rightarrow> string"
where
  "getWhereColumn relations aliasMap path collection =
     getWhereColumn_followRelation relations aliasMap path (Some collection) []"

text \<open>
  \<^verbatim>\<open>applyFilterToQuery\<close>: a sequence of independent \<^verbatim>\<open>if\<close> statements, each of which makes
  one call on \<^verbatim>\<open>dbQuery[logical]\<close> when its condition holds.
\<close>

definition applyFilterToQuery ::
  "string \<Rightarrow> string \<Rightarrow> json \<Rightarrow> logical \<Rightarrow> queryBuilder \<Rightarrow> queryBuilder"
where
  "applyFilterToQuery key operator compareValue logical dbQuery =
     foldl (\<lambda>q (applies, call). if applies then addWhere call q else q) dbQuery
       [ (operator = ''_eq'', Where logical key compareValue),
         (operator = ''_neq'', WhereNot logical key compareValue),
         (operator = ''_contains'', WhereOp logical key ''like'' (Contains compareValue)),
         (operator = ''_ncontains'', WhereNotOp logical key ''like'' (Contains compareValue)),
         (operator = ''_gt'', WhereOp logical key ''>'' (Value compareValue)),
         (operator = ''_gte'', WhereOp logical key ''>='' (Value compareValue)),
         (operator = ''_lt'', WhereOp logical key ''<'' (Value compareValue)),
         (operator = ''_lte'', WhereOp logical key ''<='' (Value compareValue)),
         (operator = ''_in'', WhereIn logical key (splitIfString compareValue)),
         (operator = ''_nin'', WhereNotIn logical key (splitIfString compareValue)),
         (operator = ''_null'' \<or> (operator = ''_nnull'' \<and> compareValue = JBool False),
            WhereNull logical key),
         (operator = ''_nnull'' \<or> (operator = ''_null'' \<and> compareValue = JBool False),
            WhereNotNull logical key),
         (operator = ''_empty'' \<or> (operator = ''_nempty'' \<and> compareValue = JBool False),
            AndWhereGroup logical [DirectWhereNull key, DirectOrWhere key ''='' (JStr [])]),
         (operator = ''_nempty'' \<or> (operator = ''_empty'' \<and> compareValue = JBool False),
            AndWhereGroup logical [DirectWhereNotNull key, DirectOrWhere key ''!='' (JStr [])]),
         (operator = ''_between'', WhereBetween logical key (splitIfString compareValue)),
         (operator = ''_nbetween'', WhereNotBetween logical key (splitIfString compareValue)) ]"

text \<open>
  \<^verbatim>\<open>applyFilter\<close>, \<^verbatim>\<open>addWhereClauses\<close> and the call of \<^verbatim>\<open>applyQuery\<close> for a filter on a
  one-to-many relation. \<^verbatim>\<open>relations\<close> is \<^verbatim>\<open>[...schema.relations, ...systemRelationRows]\<close>.
  \<^verbatim>\<open>addWhereClauses\<close> calls \<^verbatim>\<open>applyQuery\<close> with the query \<^verbatim>\<open>{ filter: value }\<close> only, for which
  the sort, limit, offset, page, single and search branches of \<^verbatim>\<open>applyQuery\<close> do nothing and
  \<^verbatim>\<open>value\<close>, a non-empty object, is truthy: \<open>applyQuery\<close> is that call. The number
  threaded through is the count of \<^verbatim>\<open>nanoid\<close> calls.

  The callback given to \<^verbatim>\<open>where\<close> is not called until knex runs the query. The functions
  below describe \<^verbatim>\<open>applyFilter\<close> together with that later run: a group is recorded, at the
  place of its \<^verbatim>\<open>where\<close> call, with the calls its callback makes on a fresh builder. Two
  things therefore differ from a run of \<^verbatim>\<open>applyFilter\<close> alone. An error thrown inside a
  callback is an error of \<open>applyFilter\<close> here, while in the program it surfaces when knex
  runs the query, after \<^verbatim>\<open>applyFilter\<close> has returned. And the identifiers that a callback
  draws from \<^verbatim>\<open>nanoid\<close> are numbered in the order of the calls made here, not in the order
  in which knex calls back. \<open>addJoins\<close> passes no callback: it is the program's join pass
  call for call, and the joins of the root query come from it alone.
\<close>

function (sequential) applyQuery ::
  "relation list \<Rightarrow> (nat \<Rightarrow> string) \<Rightarrow> string \<Rightarrow> queryBuilder \<Rightarrow> json \<Rightarrow> nat
   \<Rightarrow> error + queryBuilder \<times> nat"
and applyFilter ::
  "relation list \<Rightarrow> (nat \<Rightarrow> string) \<Rightarrow> queryBuilder \<Rightarrow> json \<Rightarrow> string \<Rightarrow> nat
   \<Rightarrow> error + queryBuilder \<times> nat"
and addWhereClauses ::
  "relation list \<Rightarrow> (nat \<Rightarrow> string) \<Rightarrow> (string \<times> string) list \<Rightarrow> queryBuilder \<Rightarrow> json
   \<Rightarrow> string \<Rightarrow> logical \<Rightarrow> nat \<Rightarrow> error + queryBuilder \<times> nat"
and addWhereClauses_entries ::
  "relation list \<Rightarrow> (nat \<Rightarrow> string) \<Rightarrow> (string \<times> string) list \<Rightarrow> queryBuilder
   \<Rightarrow> (string \<times> json) list \<Rightarrow> string \<Rightarrow> logical \<Rightarrow> nat \<Rightarrow> error + queryBuilder \<times> nat"
and addWhereClauses_forEach ::
  "relation list \<Rightarrow> (nat \<Rightarrow> string) \<Rightarrow> (string \<times> string) list \<Rightarrow> queryBuilder
   \<Rightarrow> json list \<Rightarrow> string \<Rightarrow> logical \<Rightarrow> nat \<Rightarrow> error + queryBuilder \<times> nat"
where
  "applyQuery relations nanoid collection dbQuery filterValue n =
     applyFilter relations nanoid dbQuery filterValue collection n"
| "applyFilter relations nanoid rootQuery rootFilter collection n =
     (case addJoins relations nanoid collection rootFilter (rootQuery, [], n) of
        Inl e \<Rightarrow> Inl e
      | Inr (joined, aliasMap, n') \<Rightarrow>
          addWhereClauses relations nanoid aliasMap joined rootFilter collection L_and n')"
| "addWhereClauses relations nanoid aliasMap dbQuery flt collection logical n =
     (case objectEntries flt of
        Inl e \<Rightarrow> Inl e
      | Inr entries \<Rightarrow>
          addWhereClauses_entries relations nanoid aliasMap dbQuery entries collection logical n)"
| "addWhereClauses_entries relations nanoid aliasMap dbQuery [] collection logical n =
     Inr (dbQuery, n)"
| "addWhereClauses_entries relations nanoid aliasMap dbQuery ((key, value) # rest) collection
     logical n =
     (if key = ''_or'' \<or> key = ''_and'' then
        (case value of
           JArr subFilters \<Rightarrow>
             (case (if key = ''_or'' then someEmpty subFilters else Inr False) of
                Inl e \<Rightarrow> Inl e
              | Inr True \<Rightarrow>
                  addWhereClauses_entries relations nanoid aliasMap dbQuery rest collection
                    logical n
              | Inr False \<Rightarrow>
                  (case addWhereClauses_forEach relations nanoid aliasMap
                          (QueryBuilder [] None [] []) subFilters collection
                          (if key = ''_and'' then L_and else L_or) n of
                     Inl e \<Rightarrow> Inl e
                   | Inr (subQuery, n') \<Rightarrow>
                       addWhereClauses_entries relations nanoid aliasMap
                         (addWhere (WhereGroup logical (wheres subQuery)) dbQuery) rest
                         collection logical n'))
         | _ \<Rightarrow> Inl TypeError)
      else
        (case getFilterPath key value of
           Inl e \<Rightarrow> Inl e
         | Inr filterPath \<Rightarrow>
             (case getOperation key value of
                Inl e \<Rightarrow> Inl e
              | Inr (filterOperator, filterValue) \<Rightarrow>
                  if length filterPath > 1 then
                    (case find (\<lambda>relation. one_collection relation = Some collection
                                  \<and> one_field relation = Some (hd filterPath)) relations of
                       Some o2mRelation \<Rightarrow>
                         (case applyQuery relations nanoid (many_collection o2mRelation)
                                 (QueryBuilder [many_field o2mRelation]
                                    (Some (many_collection o2mRelation)) [] [])
                                 value n of
                            Inl e \<Rightarrow> Inl e
                          | Inr (subQuery, n') \<Rightarrow>
                              addWhereClauses_entries relations nanoid aliasMap
                                (addWhere
                                   (WhereInSubQuery logical
                                      (collection @ ''.'' @ orElse (one_primary o2mRelation) ''id'')
                                      subQuery)
                                   dbQuery)
                                rest collection logical n')
                     | None \<Rightarrow>
                         addWhereClauses_entries relations nanoid aliasMap
                           (applyFilterToQuery
                              (getWhereColumn relations aliasMap filterPath collection)
                              filterOperator filterValue logical dbQuery)
                           rest collection logical n)
                  else
                    addWhereClauses_entries relations nanoid aliasMap
                      (applyFilterToQuery (collection @ ''.'' @ hd filterPath)
                         filterOperator filterValue logical dbQuery)
                      rest collection logical n)))"
| "addWhereClauses_forEach relations nanoid aliasMap subQuery [] collection logical n =
     Inr (subQuery, n)"
| "addWhereClauses_forEach relations nanoid aliasMap subQuery (subFilter # rest) collection
     logical n =
     (case addWhereClauses relations nanoid aliasMap subQuery subFilter collection logical n of
        Inl e \<Rightarrow> Inl e
      | Inr (subQuery', n') \<Rightarrow>
          addWhereClauses_forEach relations nanoid aliasMap subQuery' rest collection logical n')"
  by pat_completeness auto
termination
proof -
  have zipped: "entriesWeight (zip ks xs) \<le> sum_list (map (\<lambda>x. weight x + 1) xs)" for ks xs
  proof (induction xs arbitrary: ks)
    case Nil
    then show ?case by (simp add: entriesWeight_def)
  next
    case (Cons x xs)
    show ?case
    proof (cases ks)
      case Nil
      then show ?thesis by (simp add: entriesWeight_def)
    next
      case (Cons k ks')
      with Cons.IH[of ks'] show ?thesis
        by (cases x) (simp_all add: entriesWeight_def entryWeight_def)
    qed
  qed
  have chars: "entriesWeight (zip ks (map (\<lambda>c. JStr [c]) s)) \<le> length s" for ks s
  proof (induction s arbitrary: ks)
    case Nil
    then show ?case by (simp add: entriesWeight_def)
  next
    case (Cons c s)
    show ?case
    proof (cases ks)
      case Nil
      then show ?thesis by (simp add: entriesWeight_def)
    next
      case (Cons k ks')
      with Cons.IH[of ks'] show ?thesis by (simp add: entriesWeight_def entryWeight_def)
    qed
  qed
  have own: "entriesWeight entries \<le> sum_list (map (\<lambda>entry. weight (snd entry) + 1) entries)"
    for entries
  proof (induction entries)
    case Nil
    then show ?case by (simp add: entriesWeight_def)
  next
    case (Cons entry entries)
    then show ?case by (cases "snd entry") (simp_all add: entriesWeight_def entryWeight_def)
  qed
  have entries: "entriesWeight entries \<le> weight flt" if "objectEntries flt = Inr entries"
    for flt entries
    using that zipped[of "map showNat [0..<length xs]" xs for xs]
      chars[of "map showNat [0..<length (map (\<lambda>c. JStr [c]) s)]" s for s] own[of entries]
    by (cases flt) (auto simp: indexed_def entriesWeight_def)
  have path: "entryWeight v = weight v" if "getFilterPath key v = Inr filterPath"
    and "Suc 0 < length filterPath" for key v filterPath
    using that by (cases v) (auto simp: entryWeight_def)
  have array: "entryWeight (JArr xs) = weight (JArr xs)" for xs
    by (simp add: entryWeight_def)
  show ?thesis
    apply (relation "measure (\<lambda>x. case x of
          Inl (Inl (relations, nanoid, collection, dbQuery, filterValue, n)) \<Rightarrow>
            4 * weight filterValue + 3
        | Inl (Inr (relations, nanoid, rootQuery, rootFilter, collection, n)) \<Rightarrow>
            4 * weight rootFilter + 2
        | Inr (Inl (relations, nanoid, aliasMap, dbQuery, flt, collection, logical, n)) \<Rightarrow>
            4 * weight flt + 1
        | Inr (Inr (Inl (relations, nanoid, aliasMap, dbQuery, entries, collection, logical, n))) \<Rightarrow>
            4 * entriesWeight entries
        | Inr (Inr (Inr (relations, nanoid, aliasMap, subQuery, subFilters, collection, logical, n))) \<Rightarrow>
            4 * sum_list (map (\<lambda>x. weight x + 1) subFilters))")
    apply (auto simp: entriesWeight_def array dest!: entries)
    apply (frule path, assumption, simp)
    done
qed

text \<open>
  A join that follows relation \<open>r\<close> from its many side: it joins \<^verbatim>\<open>r.one_collection\<close> on
  \<^verbatim>\<open><parent>.<r.many_field> = <alias>.<r.one_primary>\<close>.
\<close>

definition endsWith :: "string \<Rightarrow> string \<Rightarrow> bool" where
  "endsWith s ending =
     (length ending \<le> length s \<and> drop (length s - length ending) s = ending)"

definition viaManyToOne :: "relation \<Rightarrow> leftJoin \<Rightarrow> bool" where
  "viaManyToOne r j =
     (join_table j = one_collection r
      \<and> endsWith (join_first j) (''.'' @ many_field r)
      \<and> join_second j = join_alias j @ ''.'' @ templateText (one_primary r))"

text \<open>
  The joins of \<open>after\<close> are those of \<open>before\<close> followed by joins that each follow a relation
  from its many side.
\<close>

definition onlyManyToOneJoinsAdded :: "relation list \<Rightarrow> queryBuilder \<Rightarrow> queryBuilder \<Rightarrow> bool" where
  "onlyManyToOneJoinsAdded relations before after =
     (take (length (joins before)) (joins after) = joins before
      \<and> (\<forall>j \<in> set (drop (length (joins before)) (joins after)).
            \<exists>r \<in> set relations. viaManyToOne r j))"

section \<open>Example inputs\<close>

text \<open>A condition on a primitive field, compared with one value.\<close>

definition exampleCondition :: abstractQueryNodeCondition where
  "exampleCondition =
     \<lparr> target = \<lparr> target_type = ''primitive'', target_field = ''title'' \<rparr>,
       operation = ''eq'',
       compareTo = \<lparr> compareTo_type = ''value'', compareTo_values = [JStr ''hello''] \<rparr> \<rparr>"

text \<open>
  The scenario of the spec: two articles, a comments relation, and a database in which two
  comments belong to the first article and none to the second. The clauses of a query are
  a description of it.
\<close>

definition articles :: "row list" where
  "articles =
     [ [(''id'', JNum 1), (''title'', JStr ''A'')],
       [(''id'', JNum 2), (''title'', JStr ''B'')] ]"

definition commentsOfArticle :: "string abstractSqlNestedMany" where
  "commentsOfArticle =
     AbstractSqlNestedMany [''id''] ''comment'' [''article''] ''comments''
       (\<lambda>vals. AbstractSqlQuery ''comments of an article'' vals [(''body'', [''body''])] [])"

definition commentsDatabase :: "string abstractSqlQuery \<Rightarrow> unit \<Rightarrow> (error + row list) \<times> unit" where
  "commentsDatabase abstractSql s =
     (if query_parameters abstractSql = [JNum 1]
      then (Inr [[(''body'', JStr ''hi'')], [(''body'', JStr ''yo'')]], s)
      else (Inr [], s))"

text \<open>
  The same articles with grandchildren: every comment has replies, and the sub-query for
  the comments of an article has a nested-many entry of its own. One comment belongs to the
  first article and one reply to that comment.
\<close>

definition repliesOfComment :: "string abstractSqlNestedMany" where
  "repliesOfComment =
     AbstractSqlNestedMany [''id''] ''reply'' [''comment''] ''replies''
       (\<lambda>vals. AbstractSqlQuery ''replies to a comment'' vals [] [])"

definition threadsOfArticle :: "string abstractSqlNestedMany" where
  "threadsOfArticle =
     AbstractSqlNestedMany [''id''] ''comment'' [''article''] ''comments''
       (\<lambda>vals. AbstractSqlQuery ''comments of an article'' vals [] [repliesOfComment])"

definition threadsDatabase :: "string abstractSqlQuery \<Rightarrow> unit \<Rightarrow> (error + row list) \<times> unit" where
  "threadsDatabase abstractSql s =
     (if clauses abstractSql = ''articles''
      then (Inr articles, s)
      else if clauses abstractSql = ''comments of an article''
              \<and> query_parameters abstractSql = [JNum 1]
      then (Inr [[(''id'', JNum 10), (''body'', JStr ''hi'')]], s)
      else if clauses abstractSql = ''replies to a comment''
              \<and> query_parameters abstractSql = [JNum 10]
      then (Inr [[(''body'', JStr ''re'')]], s)
      else (Inr [], s))"

definition articlesWithThreads :: "string abstractSqlQuery" where
  "articlesWithThreads = AbstractSqlQuery ''articles'' [] [] [threadsOfArticle]"

text \<open>
  A nested fetch over a fixed list of children that honours limit and offset, and a merge
  that appends the fetched children.
\<close>

definition childrenPage :: "int list \<Rightarrow> int \<Rightarrow> int \<Rightarrow> unit \<Rightarrow> (error + int list option) \<times> unit" where
  "childrenPage children limit offset s =
     (Inr (Some (take (nat limit) (drop (nat offset) children))), s)"

definition appendFetched :: "int list \<Rightarrow> int list \<Rightarrow> int list" where
  "appendFetched fetched items = items @ fetched"

text \<open>
  Articles with a many-to-one relation to authors and a one-to-many relation to comments.
\<close>

definition exampleRelations :: "relation list" where
  "exampleRelations =
     [ \<lparr> many_collection = ''articles'', many_field = ''author'',
         one_collection = Some ''authors'', one_field = Some ''articles'',
         one_primary = Some ''id'' \<rparr>,
       \<lparr> many_collection = ''comments'', many_field = ''article'',
         one_collection = Some ''articles'', one_field = Some ''comments'',
         one_primary = Some ''id'' \<rparr> ]"

definition exampleNanoid :: "nat \<Rightarrow> string" where
  "exampleNanoid n = ''alias'' @ replicate n (CHR ''x'')"

definition selectArticles :: queryBuilder where
  "selectArticles = QueryBuilder [''*''] (Some ''articles'') [] []"

section \<open>Properties of the filter converter\<close>

text \<open>
  Claim C1 says that the value of every condition is moved to the parameters and replaced in
  the where clause by a parameter index. The code does not get that far. A condition that
  passes both guards, a primitive target compared with a value by an operator other than
  the intersects operators, reaches the read of \<^verbatim>\<open>firstParameterIndex\<close> and the call ends
  with a ReferenceError; and whatever the filter is, \<open>convertFilter\<close> returns no where
  clause and no parameters.
\<close>

theorem convertFilter_throws_ReferenceError:
  "(target_type (target node) = ''primitive'' \<and> compareTo_type (compareTo node) = ''value''
      \<and> operation node \<noteq> ''intersects'' \<and> operation node \<noteq> ''intersects_bounding_box''
      \<longrightarrow> convertFilter (Condition node) collection generator = (Inl ReferenceError, generator))
   \<and> (\<forall>r generator'. convertFilter f collection generator \<noteq> (Inr r, generator'))"
  by (cases f) (auto simp: firstParameterIndex_def)

theorem convertFilter_throws_ReferenceError_witness:
  "convertFilter (Condition exampleCondition) ''articles'' 1 = (Inl ReferenceError, 1)"
  using convertFilter_throws_ReferenceError[of exampleCondition "''articles''" 1]
  by (simp add: exampleCondition_def)

text \<open>
  Claim C4. A filter that \<open>convertFilter\<close> does not support is rejected with an error and
  nothing else: a condition whose target is not a primitive field, a condition with one of
  the intersects operators, and every logical combinator (none is supported). The error is
  one of the rejections that come before the read of \<^verbatim>\<open>firstParameterIndex\<close>, no where
  clause and no parameter is returned, and the generator of parameter indexes is in the
  state it was given in: no index has been drawn.
\<close>

theorem convertFilter_rejects_unsupported:
  assumes "\<forall>n. f = Condition n \<longrightarrow>
             target_type (target n) \<noteq> ''primitive'' \<or> operation n = ''intersects''
             \<or> operation n = ''intersects_bounding_box''"
  shows "\<exists>e. e \<noteq> ReferenceError \<and> convertFilter f c g = (Inl e, g)"
  using assms by (cases f) auto

theorem convertFilter_rejects_unsupported_witness:
  "(\<exists>e. e \<noteq> ReferenceError
        \<and> convertFilter
           (Condition (exampleCondition\<lparr> target := \<lparr> target_type = ''fn'', target_field = ''title'' \<rparr> \<rparr>))
           ''articles'' 7 = (Inl e, 7))
   \<and> (\<exists>e. e \<noteq> ReferenceError
        \<and> convertFilter (Condition (exampleCondition\<lparr> operation := ''intersects'' \<rparr>))
           ''articles'' 7 = (Inl e, 7))
   \<and> (\<exists>e. e \<noteq> ReferenceError
        \<and> convertFilter (Logical ''or'' [Condition exampleCondition]) ''articles'' 7 = (Inl e, 7))"
proof -
  have "\<exists>e. e \<noteq> ReferenceError
        \<and> convertFilter
           (Condition (exampleCondition\<lparr> target := \<lparr> target_type = ''fn'', target_field = ''title'' \<rparr> \<rparr>))
           ''articles'' 7 = (Inl e, 7)"
    by (rule convertFilter_rejects_unsupported) simp
  moreover have "\<exists>e. e \<noteq> ReferenceError
        \<and> convertFilter (Condition (exampleCondition\<lparr> operation := ''intersects'' \<rparr>))
           ''articles'' 7 = (Inl e, 7)"
    by (rule convertFilter_rejects_unsupported) simp
  moreover have "\<exists>e. e \<noteq> ReferenceError
        \<and> convertFilter (Logical ''or'' [Condition exampleCondition]) ''articles'' 7 = (Inl e, 7)"
    by (rule convertFilter_rejects_unsupported) simp
  ultimately show ?thesis by blast
qed

section \<open>Properties of the nested-many merge and of the driver\<close>

subsection \<open>The merge keeps the root rows\<close>

lemma filter_update_removed:
  "k \<in> K \<Longrightarrow> filter (\<lambda>entry. fst entry \<notin> K) (AList.update k v chunk) = filter (\<lambda>entry. fst entry \<notin> K) chunk"
  by (induction chunk) auto

lemma mergeSubQuery_nestedManys:
  "mergeSubQuery abstractSql qdb subData s
     = makeSubQueriesAndMergeWithRoot subData (nestedManys abstractSql) qdb s"
  by (cases abstractSql) (simp add: makeSubQueriesAndMergeWithRoot_def)

lemma mergeNestedMany_unfold:
  "mergeNestedMany nm qdb rootChunk merged s =
     (case internalRelationalFieldValues rootChunk (internalIdentifierFields nm) of
        None \<Rightarrow> (Inl MergeError, s)
      | Some vals \<Rightarrow>
          (case qdb (queryGenerator nm vals) s of
             (Inl e, s') \<Rightarrow> (Inl e, s')
           | (Inr subData, s') \<Rightarrow>
               (case makeSubQueriesAndMergeWithRoot subData (nestedManys (queryGenerator nm vals)) qdb s' of
                  (Inl e, s'') \<Rightarrow> (Inl e, s'')
                | (Inr children, s'') \<Rightarrow>
                    (Inr (AList.update (nestedMany_alias nm) (JArr (map JObj children)) merged), s''))))"
  by (cases nm) (auto simp: mergeSubQuery_nestedManys split: option.splits prod.splits sum.splits)

lemma mergeNestedMany_attaches:
  "mergeNestedMany nm qdb rootChunk merged s = (Inr merged', s') \<Longrightarrow>
   \<exists>children. merged' = AList.update (nestedMany_alias nm) (JArr children) merged"
  by (auto simp: mergeNestedMany_unfold split: option.splits prod.splits sum.splits)

lemma mergeChunk_keeps_parent:
  "mergeChunk (map (\<lambda>nm. mergeNestedMany nm qdb) manys) rootChunk merged s = (Inr merged', s') \<Longrightarrow>
   set (map nestedMany_alias manys) \<subseteq> K \<Longrightarrow>
   filter (\<lambda>entry. fst entry \<notin> K) merged' = filter (\<lambda>entry. fst entry \<notin> K) merged"
proof (induction manys arbitrary: merged s)
  case Nil
  then show ?case by simp
next
  case (Cons nm rest)
  from Cons.prems(1) obtain merged1 t where
    first: "mergeNestedMany nm qdb rootChunk merged s = (Inr merged1, t)" and
    step: "mergeChunk (map (\<lambda>nm. mergeNestedMany nm qdb) rest) rootChunk merged1 t = (Inr merged', s')"
    by (auto split: prod.splits sum.splits)
  from mergeNestedMany_attaches[OF first] obtain children where
    "merged1 = AList.update (nestedMany_alias nm) (JArr children) merged" by blast
  moreover from Cons.prems(2) have "nestedMany_alias nm \<in> K" and "set (map nestedMany_alias rest) \<subseteq> K" by auto
  ultimately show ?case using Cons.IH[OF step] by (simp add: filter_update_removed)
qed

lemma merge_length_and_order:
  assumes "makeSubQueriesAndMergeWithRoot rootStream manys qdb s = (Inr out, s')"
  shows "length out = length rootStream
       \<and> map (withoutNestedManys manys) out = map (withoutNestedManys manys) rootStream"
  using assms unfolding makeSubQueriesAndMergeWithRoot_def
proof (induction rootStream arbitrary: out s)
  case Nil
  then show ?case by simp
next
  case (Cons rootChunk rootStream)
  from Cons.prems obtain merged t rest where
    m: "mergeChunk (map (\<lambda>nm. mergeNestedMany nm qdb) manys) rootChunk rootChunk s = (Inr merged, t)" and
    r: "mergeStream (map (\<lambda>nm. mergeNestedMany nm qdb) manys) rootStream t = (Inr rest, s')" and
    o: "out = merged # rest"
    by (auto split: prod.splits sum.splits)
  have "withoutNestedManys manys merged = withoutNestedManys manys rootChunk"
    unfolding withoutNestedManys_def by (rule mergeChunk_keeps_parent[OF m]) simp
  with Cons.IH[OF r] o show ?case by simp
qed

text \<open>
  The merge returns a stream whenever every root row has a value for every identifier field
  and the database answers every sub-query, at every depth.
\<close>

lemma mergeChunk_succeeds:
  "\<forall>nm \<in> set manys. \<forall>merged s. \<exists>merged' s'. mergeNestedMany nm qdb rootChunk merged s = (Inr merged', s') \<Longrightarrow>
   \<exists>merged' s'. mergeChunk (map (\<lambda>nm. mergeNestedMany nm qdb) manys) rootChunk merged s = (Inr merged', s')"
proof (induction manys arbitrary: merged s)
  case Nil
  then show ?case by simp
next
  case (Cons nm rest)
  from Cons.prems obtain merged1 t where
    first: "mergeNestedMany nm qdb rootChunk merged s = (Inr merged1, t)" by (meson list.set_intros(1))
  from Cons.prems have "\<exists>merged' s'. mergeChunk (map (\<lambda>nm. mergeNestedMany nm qdb) rest) rootChunk merged1 t = (Inr merged', s')"
    by (intro Cons.IH) auto
  with first show ?case by simp
qed

lemma mergeStream_succeeds:
  "\<forall>rootChunk \<in> set rootStream. \<forall>s. \<exists>merged s'. mergeChunk entries rootChunk rootChunk s = (Inr merged, s') \<Longrightarrow>
   \<exists>out s'. mergeStream entries rootStream s = (Inr out, s')"
proof (induction rootStream arbitrary: s)
  case Nil
  then show ?case by simp
next
  case (Cons rootChunk rootStream)
  from Cons.prems obtain merged t where
    m: "mergeChunk entries rootChunk rootChunk s = (Inr merged, t)" by (meson list.set_intros(1))
  from Cons.prems obtain out s' where "mergeStream entries rootStream t = (Inr out, s')"
    using Cons.IH[of t] by auto
  with m show ?case by simp
qed

lemma answered_succeeds:
  fixes qdb :: "('c, 's) queryDatabase"
  shows "answered (abstractSql :: 'c abstractSqlQuery) qdb \<longrightarrow>
       (\<forall>subData s. (\<forall>chunk \<in> set subData. \<forall>nm \<in> set (nestedManys abstractSql).
                        internalRelationalFieldValues chunk (internalIdentifierFields nm) \<noteq> None)
          \<longrightarrow> (\<exists>out s'. mergeSubQuery abstractSql qdb subData s = (Inr out, s')))"
    and "entryAnswered (nestedMany :: 'c abstractSqlNestedMany) qdb \<longrightarrow>
       (\<forall>rootChunk merged s.
          internalRelationalFieldValues rootChunk (internalIdentifierFields nestedMany) \<noteq> None
          \<longrightarrow> (\<exists>merged' s'. mergeNestedMany nestedMany qdb rootChunk merged s = (Inr merged', s')))"
proof (induction abstractSql and nestedMany)
  case (AbstractSqlQuery c p a manys)
  show ?case
  proof (intro impI allI)
    fix subData :: "row list" and s :: 's
    assume ans: "answered (AbstractSqlQuery c p a manys) qdb"
      and keys: "\<forall>chunk \<in> set subData. \<forall>nm \<in> set (nestedManys (AbstractSqlQuery c p a manys)).
                        internalRelationalFieldValues chunk (internalIdentifierFields nm) \<noteq> None"
    from ans have each: "\<forall>nm \<in> set manys. entryAnswered nm qdb" by simp
    have "\<forall>rootChunk \<in> set subData. \<forall>s. \<exists>merged s'.
            mergeChunk (map (\<lambda>nm. mergeNestedMany nm qdb) manys) rootChunk rootChunk s = (Inr merged, s')"
    proof (intro ballI allI)
      fix rootChunk s
      assume "rootChunk \<in> set subData"
      with keys each AbstractSqlQuery.IH
      have "\<forall>nm \<in> set manys. \<forall>merged s. \<exists>merged' s'. mergeNestedMany nm qdb rootChunk merged s = (Inr merged', s')"
        by simp
      then show "\<exists>merged s'. mergeChunk (map (\<lambda>nm. mergeNestedMany nm qdb) manys) rootChunk rootChunk s = (Inr merged, s')"
        by (rule mergeChunk_succeeds)
    qed
    then have "\<exists>out s'. mergeStream (map (\<lambda>nm. mergeNestedMany nm qdb) manys) subData s = (Inr out, s')"
      by (rule mergeStream_succeeds)
    then show "\<exists>out s'. mergeSubQuery (AbstractSqlQuery c p a manys) qdb subData s = (Inr out, s')"
      by simp
  qed
next
  case (AbstractSqlNestedMany identifierFields coll keyFields aliasName generator)
  show ?case
  proof (intro impI allI)
    fix rootChunk merged :: row and s :: 's
    assume ans: "entryAnswered (AbstractSqlNestedMany identifierFields coll keyFields aliasName generator) qdb"
      and "internalRelationalFieldValues rootChunk
             (internalIdentifierFields (AbstractSqlNestedMany identifierFields coll keyFields aliasName generator)) \<noteq> None"
    then obtain vals where v: "internalRelationalFieldValues rootChunk identifierFields = Some vals" by auto
    from ans have a: "answered (generator vals) qdb" by simp
    then obtain subData where
      q: "fst (qdb (generator vals) s) = Inr subData" and
      k: "\<forall>chunk \<in> set subData. \<forall>nm \<in> set (nestedManys (generator vals)).
             internalRelationalFieldValues chunk (internalIdentifierFields nm) \<noteq> None"
      by (cases "generator vals") (auto, metis)
    obtain t where qt: "qdb (generator vals) s = (Inr subData, t)"
      using q by (cases "qdb (generator vals) s") auto
    from AbstractSqlNestedMany.IH[of "generator vals"] a k obtain children t' where
      "mergeSubQuery (generator vals) qdb subData t = (Inr children, t')" by blast
    with v qt show "\<exists>merged' s'. mergeNestedMany (AbstractSqlNestedMany identifierFields coll keyFields aliasName generator)
                       qdb rootChunk merged s = (Inr merged', s')"
      by simp
  qed
qed

lemma merge_succeeds:
  assumes "\<forall>rootChunk \<in> set rootStream. \<forall>nm \<in> set manys.
      internalRelationalFieldValues rootChunk (internalIdentifierFields nm) \<noteq> None"
    and "\<forall>nm \<in> set manys. entryAnswered nm qdb"
  shows "\<exists>out s'. makeSubQueriesAndMergeWithRoot rootStream manys qdb s = (Inr out, s')"
proof -
  have "\<forall>rootChunk \<in> set rootStream. \<forall>s. \<exists>merged s'.
          mergeChunk (map (\<lambda>nm. mergeNestedMany nm qdb) manys) rootChunk rootChunk s = (Inr merged, s')"
  proof (intro ballI allI)
    fix rootChunk s
    assume "rootChunk \<in> set rootStream"
    with assms answered_succeeds(2)[of _ qdb]
    have "\<forall>nm \<in> set manys. \<forall>merged s. \<exists>merged' s'. mergeNestedMany nm qdb rootChunk merged s = (Inr merged', s')"
      by blast
    then show "\<exists>merged s'. mergeChunk (map (\<lambda>nm. mergeNestedMany nm qdb) manys) rootChunk rootChunk s = (Inr merged, s')"
      by (rule mergeChunk_succeeds)
  qed
  then show ?thesis unfolding makeSubQueriesAndMergeWithRoot_def by (rule mergeStream_succeeds)
qed

text \<open>
  Claim C2. When the merge returns a stream for a root stream of K rows, that stream has
  exactly K rows, and row by row it is the root row with only the fields of the nested-many
  entries changed: the parent rows are in the order of the root stream. The merge does
  return a stream when every root row has a value for every identifier field and the
  database answers every sub-query of the entries (\<open>entryAnswered\<close>: with rows that in
  turn have the identifier fields of the sub-query's own entries); otherwise it ends with
  the error.
\<close>

theorem merge_keeps_rows_in_order:
  "(makeSubQueriesAndMergeWithRoot rootStream manys qdb s = (Inr out, s')
      \<longrightarrow> length out = length rootStream
          \<and> map (withoutNestedManys manys) out = map (withoutNestedManys manys) rootStream)
   \<and> ((\<forall>rootChunk \<in> set rootStream. \<forall>nm \<in> set manys.
          internalRelationalFieldValues rootChunk (internalIdentifierFields nm) \<noteq> None)
        \<and> (\<forall>nm \<in> set manys. entryAnswered nm qdb)
      \<longrightarrow> (\<exists>merged t. makeSubQueriesAndMergeWithRoot rootStream manys qdb s = (Inr merged, t)
                       \<and> length merged = length rootStream))"
proof (intro conjI impI)
  assume a: "makeSubQueriesAndMergeWithRoot rootStream manys qdb s = (Inr out, s')"
  show "length out = length rootStream"
    using merge_length_and_order[OF a] by simp
  show "map (withoutNestedManys manys) out = map (withoutNestedManys manys) rootStream"
    using merge_length_and_order[OF a] by simp
next
  assume "(\<forall>rootChunk \<in> set rootStream. \<forall>nm \<in> set manys.
          internalRelationalFieldValues rootChunk (internalIdentifierFields nm) \<noteq> None)
        \<and> (\<forall>nm \<in> set manys. entryAnswered nm qdb)"
  then obtain merged t where
    m: "makeSubQueriesAndMergeWithRoot rootStream manys qdb s = (Inr merged, t)"
    using merge_succeeds[of rootStream manys qdb s] by blast
  with merge_length_and_order[OF m]
  show "\<exists>merged t. makeSubQueriesAndMergeWithRoot rootStream manys qdb s = (Inr merged, t)
                       \<and> length merged = length rootStream"
    by blast
qed

text \<open>
  The scenario of the spec, and the same articles with replies below the comments.
\<close>

lemma articles_with_comments:
  "makeSubQueriesAndMergeWithRoot articles [commentsOfArticle] commentsDatabase ()
     = (Inr [ [(''id'', JNum 1), (''title'', JStr ''A''),
               (''comments'', JArr [JObj [(''body'', JStr ''hi'')], JObj [(''body'', JStr ''yo'')]])],
              [(''id'', JNum 2), (''title'', JStr ''B''), (''comments'', JArr [])] ], ())"
  by (simp add: makeSubQueriesAndMergeWithRoot_def articles_def commentsOfArticle_def commentsDatabase_def)

lemma articles_with_threads:
  "makeSubQueriesAndMergeWithRoot articles [threadsOfArticle] threadsDatabase ()
     = (Inr [ [(''id'', JNum 1), (''title'', JStr ''A''),
               (''comments'', JArr [JObj [(''id'', JNum 10), (''body'', JStr ''hi''),
                                          (''replies'', JArr [JObj [(''body'', JStr ''re'')]])]])],
              [(''id'', JNum 2), (''title'', JStr ''B''), (''comments'', JArr [])] ], ())"
  by (simp add: makeSubQueriesAndMergeWithRoot_def articles_def threadsOfArticle_def
      repliesOfComment_def threadsDatabase_def)

theorem merge_keeps_rows_in_order_witness:
  "makeSubQueriesAndMergeWithRoot articles [threadsOfArticle] threadsDatabase ()
     = (Inr [ [(''id'', JNum 1), (''title'', JStr ''A''),
               (''comments'', JArr [JObj [(''id'', JNum 10), (''body'', JStr ''hi''),
                                          (''replies'', JArr [JObj [(''body'', JStr ''re'')]])]])],
              [(''id'', JNum 2), (''title'', JStr ''B''), (''comments'', JArr [])] ], ())
   \<and> map (withoutNestedManys [threadsOfArticle])
         [ [(''id'', JNum 1), (''title'', JStr ''A''),
            (''comments'', JArr [JObj [(''id'', JNum 10), (''body'', JStr ''hi''),
                                       (''replies'', JArr [JObj [(''body'', JStr ''re'')]])]])],
           [(''id'', JNum 2), (''title'', JStr ''B''), (''comments'', JArr [])] ]
       = [ [(''id'', JNum 1), (''title'', JStr ''A'')], [(''id'', JNum 2), (''title'', JStr ''B'')] ]
   \<and> (\<exists>merged t. makeSubQueriesAndMergeWithRoot articles [commentsOfArticle] commentsDatabase ()
                     = (Inr merged, t) \<and> length merged = 2)"
proof -
  have keep: "map (withoutNestedManys [threadsOfArticle]) articles
                = [ [(''id'', JNum 1), (''title'', JStr ''A'')], [(''id'', JNum 2), (''title'', JStr ''B'')] ]"
    by (simp add: withoutNestedManys_def threadsOfArticle_def articles_def)
  have first: "map (withoutNestedManys [threadsOfArticle])
         [ [(''id'', JNum 1), (''title'', JStr ''A''),
            (''comments'', JArr [JObj [(''id'', JNum 10), (''body'', JStr ''hi''),
                                       (''replies'', JArr [JObj [(''body'', JStr ''re'')]])]])],
           [(''id'', JNum 2), (''title'', JStr ''B''), (''comments'', JArr [])] ]
       = [ [(''id'', JNum 1), (''title'', JStr ''A'')], [(''id'', JNum 2), (''title'', JStr ''B'')] ]"
    using merge_keeps_rows_in_order[THEN conjunct1, THEN mp, OF articles_with_threads] keep
    by simp
  have keys: "\<forall>rootChunk \<in> set articles. \<forall>nm \<in> set [commentsOfArticle].
      internalRelationalFieldValues rootChunk (internalIdentifierFields nm) \<noteq> None"
    by (simp add: articles_def commentsOfArticle_def)
  have db: "\<forall>nm \<in> set [commentsOfArticle]. entryAnswered nm commentsDatabase"
    by (simp add: commentsOfArticle_def commentsDatabase_def)
  have len: "length articles = 2" by (simp add: articles_def)
  have second: "\<exists>merged t. makeSubQueriesAndMergeWithRoot articles [commentsOfArticle]
                   commentsDatabase () = (Inr merged, t) \<and> length merged = 2"
    using merge_keeps_rows_in_order[THEN conjunct2, THEN mp, OF conjI[OF keys db], of "()"] len
    by simp
  from first second articles_with_threads show ?thesis by simp
qed

subsection \<open>A parent without children\<close>

lemma mergeStream_nth:
  "mergeStream entries rootStream s = (Inr out, s') \<Longrightarrow> i < length rootStream \<Longrightarrow>
   \<exists>t t'. mergeChunk entries (rootStream ! i) (rootStream ! i) t = (Inr (out ! i), t')"
proof (induction rootStream arbitrary: out s i)
  case Nil
  then show ?case by simp
next
  case (Cons rootChunk rootStream)
  from Cons.prems(1) obtain merged t rest where
    m: "mergeChunk entries rootChunk rootChunk s = (Inr merged, t)" and
    r: "mergeStream entries rootStream t = (Inr rest, s')" and
    o: "out = merged # rest"
    by (auto split: prod.splits sum.splits)
  show ?case
  proof (cases i)
    case 0
    with m o show ?thesis by auto
  next
    case (Suc j)
    with Cons.prems(2) have "j < length rootStream" by simp
    from Cons.IH[OF r this] Suc o show ?thesis by simp
  qed
qed

lemma merge_of_no_rows:
  "makeSubQueriesAndMergeWithRoot [] manys qdb s = (Inr [], s)"
  by (simp add: makeSubQueriesAndMergeWithRoot_def)

lemma mergeChunk_field_is_array:
  "mergeChunk (map (\<lambda>nm. mergeNestedMany nm qdb) manys) rootChunk merged s = (Inr merged', s') \<Longrightarrow>
   (\<exists>children. map_of merged k = Some (JArr children)) \<or> k \<in> set (map nestedMany_alias manys) \<Longrightarrow>
   \<exists>children. map_of merged' k = Some (JArr children)"
proof (induction manys arbitrary: merged s)
  case Nil
  then show ?case by simp
next
  case (Cons first rest)
  from Cons.prems(1) obtain merged1 t where
    f: "mergeNestedMany first qdb rootChunk merged s = (Inr merged1, t)" and
    step: "mergeChunk (map (\<lambda>nm. mergeNestedMany nm qdb) rest) rootChunk merged1 t = (Inr merged', s')"
    by (auto split: prod.splits sum.splits)
  from mergeNestedMany_attaches[OF f] obtain children where
    m1: "merged1 = AList.update (nestedMany_alias first) (JArr children) merged" by blast
  from Cons.prems(2) m1
  have "(\<exists>children. map_of merged1 k = Some (JArr children)) \<or> k \<in> set (map nestedMany_alias rest)"
    by (auto simp: update_conv')
  from Cons.IH[OF step this] show ?case .
qed

lemma mergeChunk_no_children:
  "mergeChunk (map (\<lambda>nm. mergeNestedMany nm qdb) manys) rootChunk merged s = (Inr merged', s') \<Longrightarrow>
   \<forall>other \<in> set manys. nestedMany_alias other = k \<longrightarrow>
      (\<forall>vals t. internalRelationalFieldValues rootChunk (internalIdentifierFields other) = Some vals
                 \<longrightarrow> fst (qdb (queryGenerator other vals) t) = Inr []) \<Longrightarrow>
   map_of merged k = Some (JArr []) \<or> k \<in> set (map nestedMany_alias manys) \<Longrightarrow>
   map_of merged' k = Some (JArr [])"
proof (induction manys arbitrary: merged s)
  case Nil
  then show ?case by simp
next
  case (Cons first rest)
  from Cons.prems(1) obtain merged1 t where
    f: "mergeNestedMany first qdb rootChunk merged s = (Inr merged1, t)" and
    step: "mergeChunk (map (\<lambda>nm. mergeNestedMany nm qdb) rest) rootChunk merged1 t = (Inr merged', s')"
    by (auto split: prod.splits sum.splits)
  from f obtain vals subData t1 children where
    v: "internalRelationalFieldValues rootChunk (internalIdentifierFields first) = Some vals" and
    q: "qdb (queryGenerator first vals) s = (Inr subData, t1)" and
    c: "makeSubQueriesAndMergeWithRoot subData (nestedManys (queryGenerator first vals)) qdb t1
          = (Inr children, t)" and
    m1: "merged1 = AList.update (nestedMany_alias first) (JArr (map JObj children)) merged"
    by (auto simp: mergeNestedMany_unfold split: option.splits prod.splits sum.splits)
  have "map_of merged1 k = Some (JArr []) \<or> k \<in> set (map nestedMany_alias rest)"
  proof (cases "nestedMany_alias first = k")
    case True
    with Cons.prems(2) v have "fst (qdb (queryGenerator first vals) s) = Inr []" by simp
    with q have "subData = []" by simp
    with c have "children = []" by (simp add: merge_of_no_rows)
    with m1 True show ?thesis by (simp add: update_conv')
  next
    case False
    with Cons.prems(3) m1 show ?thesis by (auto simp: update_conv')
  qed
  moreover from Cons.prems(2) have "\<forall>other \<in> set rest. nestedMany_alias other = k \<longrightarrow>
      (\<forall>vals t. internalRelationalFieldValues rootChunk (internalIdentifierFields other) = Some vals
                 \<longrightarrow> fst (qdb (queryGenerator other vals) t) = Inr [])" by simp
  ultimately show ?case using Cons.IH[OF step] by blast
qed

text \<open>
  Claim C6. In every merged row the field named by the alias of a nested-many entry is
  present and holds an array: it is never omitted and never \<^verbatim>\<open>null\<close>. When the sub-query
  of the entry for that parent row has no rows, the array is empty. Entries with other
  aliases play no part; should several entries of the list carry the same alias they write
  the same field, and then all of them are required to have no rows for the parent.
\<close>

theorem childless_parent_gets_empty_array:
  assumes "makeSubQueriesAndMergeWithRoot rootStream manys qdb s = (Inr out, s')"
    and "i < length rootStream" and "nm \<in> set manys"
  shows "(\<exists>children. map_of (out ! i) (nestedMany_alias nm) = Some (JArr children))
       \<and> ((\<forall>other \<in> set manys. nestedMany_alias other = nestedMany_alias nm \<longrightarrow>
              (\<forall>vals t. internalRelationalFieldValues (rootStream ! i) (internalIdentifierFields other)
                           = Some vals
                         \<longrightarrow> fst (qdb (queryGenerator other vals) t) = Inr []))
            \<longrightarrow> map_of (out ! i) (nestedMany_alias nm) = Some (JArr []))"
proof -
  from mergeStream_nth[OF assms(1)[unfolded makeSubQueriesAndMergeWithRoot_def] assms(2)]
  obtain t t' where
    run: "mergeChunk (map (\<lambda>nm. mergeNestedMany nm qdb) manys) (rootStream ! i) (rootStream ! i) t
            = (Inr (out ! i), t')" by blast
  from assms(3) have mem: "nestedMany_alias nm \<in> set (map nestedMany_alias manys)" by simp
  have "\<exists>children. map_of (out ! i) (nestedMany_alias nm) = Some (JArr children)"
    using mergeChunk_field_is_array[OF run] mem by blast
  moreover have "map_of (out ! i) (nestedMany_alias nm) = Some (JArr [])"
    if "\<forall>other \<in> set manys. nestedMany_alias other = nestedMany_alias nm \<longrightarrow>
              (\<forall>vals t. internalRelationalFieldValues (rootStream ! i) (internalIdentifierFields other)
                           = Some vals
                         \<longrightarrow> fst (qdb (queryGenerator other vals) t) = Inr [])"
    using mergeChunk_no_children[OF run that] mem by blast
  ultimately show ?thesis by blast
qed

theorem childless_parent_gets_empty_array_witness:
  "fst (makeSubQueriesAndMergeWithRoot articles [commentsOfArticle] commentsDatabase ())
     = Inr [ [(''id'', JNum 1), (''title'', JStr ''A''),
              (''comments'', JArr [JObj [(''body'', JStr ''hi'')], JObj [(''body'', JStr ''yo'')]])],
             [(''id'', JNum 2), (''title'', JStr ''B''), (''comments'', JArr [])] ]
   \<and> nestedMany_alias commentsOfArticle = ''comments''
   \<and> map_of [(''id'', JNum 2), (''title'', JStr ''B''), (''comments'', JArr [])]
        (nestedMany_alias commentsOfArticle) = Some (JArr [])"
proof -
  let ?out = "[ [(''id'', JNum 1), (''title'', JStr ''A''),
               (''comments'', JArr [JObj [(''body'', JStr ''hi'')], JObj [(''body'', JStr ''yo'')]])],
              [(''id'', JNum 2), (''title'', JStr ''B''), (''comments'', JArr [])] ]"
  have i: "1 < length articles" by (simp add: articles_def)
  have nm: "commentsOfArticle \<in> set [commentsOfArticle]" by simp
  have none: "\<forall>other \<in> set [commentsOfArticle].
        nestedMany_alias other = nestedMany_alias commentsOfArticle \<longrightarrow>
          (\<forall>vals t. internalRelationalFieldValues (articles ! 1) (internalIdentifierFields other)
                       = Some vals
                     \<longrightarrow> fst (commentsDatabase (queryGenerator other vals) t) = Inr [])"
    by (simp add: articles_def commentsOfArticle_def commentsDatabase_def)
  from childless_parent_gets_empty_array[OF articles_with_comments i nm, THEN conjunct2, THEN mp, OF none]
  have "map_of (?out ! 1) (nestedMany_alias commentsOfArticle) = Some (JArr [])" .
  then have empty: "map_of [(''id'', JNum 2), (''title'', JStr ''B''), (''comments'', JArr [])]
        (nestedMany_alias commentsOfArticle) = Some (JArr [])" by simp
  have run: "fst (makeSubQueriesAndMergeWithRoot articles [commentsOfArticle] commentsDatabase ())
     = Inr ?out" by (simp add: articles_with_comments)
  have name: "nestedMany_alias commentsOfArticle = ''comments''"
    by (simp add: commentsOfArticle_def)
  from run name empty show ?thesis by (intro conjI)
qed

subsection \<open>The query method\<close>

text \<open>
  Claim C9. When the compiled abstract query has no nested-many entries, \<open>query\<close> returns
  what \<open>queryDB\<close> returned for the root query, whatever the merge function is: the merge is
  not used.
\<close>

theorem query_without_nestedManys:
  assumes "convertQuery q = Inr abstractSql" and "nestedManys abstractSql = []"
  shows "query convertQuery queryDB mergeWithRoot q s = queryDB abstractSql s"
  using assms by (auto simp: query_def split: prod.splits sum.splits)

theorem query_without_nestedManys_witness:
  "query (\<lambda>q. Inr (AbstractSqlQuery ''articles'' [] [] [])) (\<lambda>abstractSql s. (Inr articles, s))
     (\<lambda>rootStream manys queryDB s. (Inl MergeError, s)) ''articles'' ()
   = (Inr articles, ())"
  using query_without_nestedManys[of "\<lambda>q. Inr (AbstractSqlQuery ''articles'' [] [] [])" "''articles''"
          "AbstractSqlQuery ''articles'' [] [] []" "\<lambda>abstractSql s. (Inr articles, s)"
          "\<lambda>rootStream manys queryDB s. (Inl MergeError, s)" "()"]
  by simp

subsection \<open>The queries that the driver runs\<close>

text \<open>
  The queries that \<open>query\<close> runs, in order: the root query first; then, when the merge
  returns a stream, for every root row and every nested-many entry the sub-query that the
  entry generates from the identifier fields of the row.
\<close>

lemma recording_appends:
  "recording qdb abstractSql (queries, s) = (r, (queries', s')) \<Longrightarrow> queries' = queries @ [abstractSql]"
  by (auto simp: recording_def split: prod.splits)

lemma mergeChunk_log_grows:
  "\<forall>entry \<in> set entries. \<forall>merged queries s r queries' s'.
      entry rootChunk merged (queries, s) = (r, (queries', s')) \<longrightarrow> (\<exists>subs. queries' = queries @ subs) \<Longrightarrow>
   mergeChunk entries rootChunk merged (queries, s) = (r, (queries', s')) \<Longrightarrow>
   \<exists>subs. queries' = queries @ subs"
proof (induction entries arbitrary: merged queries s)
  case Nil
  then show ?case by simp
next
  case (Cons entry rest)
  obtain a q1 s1 where f: "entry rootChunk merged (queries, s) = (a, (q1, s1))" by (metis surj_pair)
  with Cons.prems(1) obtain subs1 where q1: "q1 = queries @ subs1" by (meson list.set_intros(1))
  show ?case
  proof (cases a)
    case (Inl e)
    with Cons.prems(2) f q1 show ?thesis by auto
  next
    case (Inr merged1)
    with Cons.prems(2) f have "mergeChunk rest rootChunk merged1 (q1, s1) = (r, (queries', s'))" by simp
    from Cons.IH[OF _ this] Cons.prems(1) obtain subs2 where "queries' = q1 @ subs2" by auto
    with q1 show ?thesis by simp
  qed
qed

lemma mergeStream_log_grows:
  "\<forall>entry \<in> set entries. \<forall>rootChunk merged queries s r queries' s'.
      entry rootChunk merged (queries, s) = (r, (queries', s')) \<longrightarrow> (\<exists>subs. queries' = queries @ subs) \<Longrightarrow>
   mergeStream entries rootStream (queries, s) = (r, (queries', s')) \<Longrightarrow>
   \<exists>subs. queries' = queries @ subs"
proof (induction rootStream arbitrary: queries s r queries' s')
  case Nil
  then show ?case by simp
next
  case (Cons rootChunk rootStream)
  obtain a q1 s1 where m: "mergeChunk entries rootChunk rootChunk (queries, s) = (a, (q1, s1))"
    by (metis surj_pair)
  from Cons.prems(1) have "\<forall>entry \<in> set entries. \<forall>merged queries s r queries' s'.
      entry rootChunk merged (queries, s) = (r, (queries', s')) \<longrightarrow> (\<exists>subs. queries' = queries @ subs)"
    by blast
  from mergeChunk_log_grows[OF this m] obtain subs1 where q1: "q1 = queries @ subs1" by blast
  show ?case
  proof (cases a)
    case (Inl e)
    with Cons.prems(2) m q1 show ?thesis by auto
  next
    case (Inr merged)
    obtain b q2 s2 where k: "mergeStream entries rootStream (q1, s1) = (b, (q2, s2))"
      by (metis surj_pair)
    from Cons.prems(2) m Inr k have "queries' = q2" by (auto split: sum.splits)
    moreover from Cons.IH[OF Cons.prems(1) k] obtain subs2 where "q2 = q1 @ subs2" by blast
    ultimately show ?thesis using q1 by simp
  qed
qed

lemma merge_log_grows:
  fixes qdb :: "('c, 's) queryDatabase"
  shows "\<forall>subData queries s r queries' s'.
           mergeSubQuery (abstractSql :: 'c abstractSqlQuery) (recording qdb) subData (queries, s)
             = (r, (queries', s')) \<longrightarrow> (\<exists>subs. queries' = queries @ subs)"
    and "\<forall>rootChunk merged queries s r queries' s'.
           mergeNestedMany (nestedMany :: 'c abstractSqlNestedMany) (recording qdb) rootChunk merged (queries, s)
             = (r, (queries', s')) \<longrightarrow> (\<exists>subs. queries' = queries @ subs)"
proof (induction abstractSql and nestedMany)
  case (AbstractSqlQuery c p a manys)
  show ?case
  proof (intro allI impI)
    fix subData queries s r queries' s'
    assume "mergeSubQuery (AbstractSqlQuery c p a manys) (recording qdb) subData (queries, s)
             = (r, (queries', s'))"
    then have run: "mergeStream (map (\<lambda>nm. mergeNestedMany nm (recording qdb)) manys) subData (queries, s)
             = (r, (queries', s'))" by simp
    have "\<forall>entry \<in> set (map (\<lambda>nm. mergeNestedMany nm (recording qdb)) manys).
            \<forall>rootChunk merged queries s r queries' s'.
              entry rootChunk merged (queries, s) = (r, (queries', s')) \<longrightarrow> (\<exists>subs. queries' = queries @ subs)"
      using AbstractSqlQuery.IH by auto
    from mergeStream_log_grows[OF this run] show "\<exists>subs. queries' = queries @ subs" .
  qed
next
  case (AbstractSqlNestedMany identifierFields coll keyFields aliasName generator)
  show ?case
  proof (intro allI impI)
    fix rootChunk merged queries s r queries' s'
    assume run: "mergeNestedMany (AbstractSqlNestedMany identifierFields coll keyFields aliasName generator)
                   (recording qdb) rootChunk merged (queries, s) = (r, (queries', s'))"
    show "\<exists>subs. queries' = queries @ subs"
    proof (cases "internalRelationalFieldValues rootChunk identifierFields")
      case None
      with run show ?thesis by simp
    next
      case (Some vals)
      obtain a q1 s1 where q: "recording qdb (generator vals) (queries, s) = (a, (q1, s1))"
        by (metis surj_pair)
      from recording_appends[OF q] have q1: "q1 = queries @ [generator vals]" .
      show ?thesis
      proof (cases a)
        case (Inl e)
        with run Some q q1 show ?thesis by auto
      next
        case (Inr subData)
        obtain b q2 s2 where k: "mergeSubQuery (generator vals) (recording qdb) subData (q1, s1) = (b, (q2, s2))"
          by (metis surj_pair)
        with AbstractSqlNestedMany.IH[of "generator vals"] obtain subs where "q2 = q1 @ subs" by blast
        moreover from run Some q Inr k have "queries' = q2" by (auto split: sum.splits)
        ultimately show ?thesis using q1 by simp
      qed
    qed
  qed
qed

lemma mergeNestedMany_asks:
  assumes "mergeNestedMany nm (recording qdb) rootChunk merged (queries, s) = (Inr merged', (queries', s'))"
  shows "\<exists>vals subs. internalRelationalFieldValues rootChunk (internalIdentifierFields nm) = Some vals
           \<and> queries' = queries @ queryGenerator nm vals # subs"
proof -
  from assms obtain vals subData q1 s1 children where
    v: "internalRelationalFieldValues rootChunk (internalIdentifierFields nm) = Some vals" and
    q: "recording qdb (queryGenerator nm vals) (queries, s) = (Inr subData, (q1, s1))" and
    c: "makeSubQueriesAndMergeWithRoot subData (nestedManys (queryGenerator nm vals)) (recording qdb) (q1, s1)
          = (Inr children, (queries', s'))"
    by (auto simp: mergeNestedMany_unfold split: option.splits prod.splits sum.splits)
  from recording_appends[OF q] have "q1 = queries @ [queryGenerator nm vals]" .
  moreover from c merge_log_grows(1)[of "queryGenerator nm vals" qdb] obtain subs where "queries' = q1 @ subs"
    unfolding mergeSubQuery_nestedManys by blast
  ultimately show ?thesis using v by simp
qed

lemma mergeChunk_asks:
  "mergeChunk (map (\<lambda>nm. mergeNestedMany nm (recording qdb)) manys) rootChunk merged (queries, s)
     = (Inr merged', (queries', s')) \<Longrightarrow>
   \<exists>subs. queries' = queries @ subs
     \<and> (\<forall>nm \<in> set manys. \<exists>vals.
           internalRelationalFieldValues rootChunk (internalIdentifierFields nm) = Some vals
           \<and> queryGenerator nm vals \<in> set subs)"
proof (induction manys arbitrary: merged queries s)
  case Nil
  then show ?case by simp
next
  case (Cons first rest)
  from Cons.prems obtain merged1 q1 s1 where
    f: "mergeNestedMany first (recording qdb) rootChunk merged (queries, s) = (Inr merged1, (q1, s1))" and
    step: "mergeChunk (map (\<lambda>nm. mergeNestedMany nm (recording qdb)) rest) rootChunk merged1 (q1, s1)
             = (Inr merged', (queries', s'))"
    by (auto split: prod.splits sum.splits)
  from mergeNestedMany_asks[OF f] obtain vals subs1 where
    v: "internalRelationalFieldValues rootChunk (internalIdentifierFields first) = Some vals" and
    q1: "q1 = queries @ queryGenerator first vals # subs1" by blast
  from Cons.IH[OF step] obtain subs2 where
    q2: "queries' = q1 @ subs2" and
    all: "\<forall>nm \<in> set rest. \<exists>vals.
           internalRelationalFieldValues rootChunk (internalIdentifierFields nm) = Some vals
           \<and> queryGenerator nm vals \<in> set subs2" by blast
  let ?subs = "queryGenerator first vals # subs1 @ subs2"
  have "queries' = queries @ ?subs" using q1 q2 by simp
  moreover have "\<forall>nm \<in> set (first # rest). \<exists>vals.
           internalRelationalFieldValues rootChunk (internalIdentifierFields nm) = Some vals
           \<and> queryGenerator nm vals \<in> set ?subs"
    using v all by auto
  ultimately show ?case by blast
qed

lemma merge_asks:
  "makeSubQueriesAndMergeWithRoot rootStream manys (recording qdb) (queries, s) = (Inr out, (queries', s')) \<Longrightarrow>
   \<exists>subs. queries' = queries @ subs
     \<and> (\<forall>rootChunk \<in> set rootStream. \<forall>nm \<in> set manys. \<exists>vals.
           internalRelationalFieldValues rootChunk (internalIdentifierFields nm) = Some vals
           \<and> queryGenerator nm vals \<in> set subs)"
  unfolding makeSubQueriesAndMergeWithRoot_def
proof (induction rootStream arbitrary: out queries s)
  case Nil
  then show ?case by simp
next
  case (Cons rootChunk rootStream)
  from Cons.prems obtain merged q1 s1 rest where
    m: "mergeChunk (map (\<lambda>nm. mergeNestedMany nm (recording qdb)) manys) rootChunk rootChunk (queries, s)
          = (Inr merged, (q1, s1))" and
    r: "mergeStream (map (\<lambda>nm. mergeNestedMany nm (recording qdb)) manys) rootStream (q1, s1)
          = (Inr rest, (queries', s'))"
    by (auto split: prod.splits sum.splits)
  from mergeChunk_asks[OF m] obtain subs1 where
    q1: "q1 = queries @ subs1" and
    a1: "\<forall>nm \<in> set manys. \<exists>vals.
           internalRelationalFieldValues rootChunk (internalIdentifierFields nm) = Some vals
           \<and> queryGenerator nm vals \<in> set subs1" by blast
  from Cons.IH[OF r] obtain subs2 where
    q2: "queries' = q1 @ subs2" and
    a2: "\<forall>rootChunk \<in> set rootStream. \<forall>nm \<in> set manys. \<exists>vals.
           internalRelationalFieldValues rootChunk (internalIdentifierFields nm) = Some vals
           \<and> queryGenerator nm vals \<in> set subs2" by blast
  have "queries' = queries @ (subs1 @ subs2)" using q1 q2 by simp
  moreover have "\<forall>chunk \<in> set (rootChunk # rootStream). \<forall>nm \<in> set manys. \<exists>vals.
           internalRelationalFieldValues chunk (internalIdentifierFields nm) = Some vals
           \<and> queryGenerator nm vals \<in> set (subs1 @ subs2)"
    using a1 a2 by fastforce
  ultimately show ?case by blast
qed

lemma query_asks_sub_queries:
  assumes "convertQuery q = Inr abstractSql"
    and "queryDB abstractSql s = (Inr rootStream, s1)"
    and "query convertQuery (recording queryDB) makeSubQueriesAndMergeWithRoot q ([], s)
           = (Inr out, (queries, s'))"
  shows "\<exists>subs. queries = abstractSql # subs
           \<and> (\<forall>rootChunk \<in> set rootStream. \<forall>nm \<in> set (nestedManys abstractSql). \<exists>vals.
                 internalRelationalFieldValues rootChunk (internalIdentifierFields nm) = Some vals
                 \<and> queryGenerator nm vals \<in> set subs)"
proof -
  from assms(2) have rq: "recording queryDB abstractSql ([], s) = (Inr rootStream, ([abstractSql], s1))"
    by (simp add: recording_def)
  show ?thesis
  proof (cases "nestedManys abstractSql = []")
    case True
    with assms(1,3) rq have "queries = [abstractSql]" by (simp add: query_def)
    with True show ?thesis by simp
  next
    case False
    with assms(1,3) rq
    have "makeSubQueriesAndMergeWithRoot rootStream (nestedManys abstractSql) (recording queryDB)
            ([abstractSql], s1) = (Inr out, (queries, s'))"
      by (simp add: query_def)
    from merge_asks[OF this] show ?thesis by auto
  qed
qed

text \<open>
  The articles with comments and replies: four queries, the root query first, the replies
  to a comment right after the comments of its article.
\<close>

lemma threads_queries:
  "query (\<lambda>q. Inr articlesWithThreads) (recording threadsDatabase) makeSubQueriesAndMergeWithRoot
     () ([], ())
   = (Inr [ [(''id'', JNum 1), (''title'', JStr ''A''),
               (''comments'', JArr [JObj [(''id'', JNum 10), (''body'', JStr ''hi''),
                                          (''replies'', JArr [JObj [(''body'', JStr ''re'')]])]])],
              [(''id'', JNum 2), (''title'', JStr ''B''), (''comments'', JArr [])] ],
      ([ articlesWithThreads,
         queryGenerator threadsOfArticle [JNum 1],
         queryGenerator repliesOfComment [JNum 10],
         queryGenerator threadsOfArticle [JNum 2] ], ()))"
  by (simp add: query_def recording_def makeSubQueriesAndMergeWithRoot_def articlesWithThreads_def
      threadsOfArticle_def repliesOfComment_def threadsDatabase_def articles_def)

section \<open>Properties of the batched fetch\<close>

lemma batch_trichotomy:
  "fullBatch B r \<or> lastBatch B r \<or> (\<exists>e. r = Inl e)"
  by (cases "(B, r)" rule: fullBatch.cases) auto

lemma o2mBatches_full:
  assumes "fullBatch B (fst (rn B (int b * B) s))"
  shows "o2mBatches rn mg B b items s =
         o2mBatches rn mg B (Suc b) (fst (mergeBatch rn mg B b (items, s))) (snd (mergeBatch rn mg B b (items, s)))"
proof -
  obtain r s' where rs: "rn B (int b * B) s = (r, s')" by (cases "rn B (int b * B) s")
  with assms obtain fetched where r: "r = Inr (Some fetched)" and len: "B \<le> int (length fetched)"
    by (cases "(B, r)" rule: fullBatch.cases) auto
  show ?thesis
    by (subst o2mBatches.simps) (use rs r len in simp)
qed

lemma o2mBatches_last:
  assumes "lastBatch B (fst (rn B (int b * B) s))"
  shows "o2mBatches rn mg B b items s =
         Some (Inr (fst (mergeBatch rn mg B b (items, s)), Suc b), snd (mergeBatch rn mg B b (items, s)))"
proof -
  obtain r s' where rs: "rn B (int b * B) s = (r, s')" by (cases "rn B (int b * B) s")
  with assms have "r = Inr None \<or> (\<exists>fetched. r = Inr (Some fetched) \<and> int (length fetched) < B)"
    by (cases "(B, r)" rule: fullBatch.cases) auto
  then show ?thesis
    by (subst o2mBatches.simps) (use rs in auto)
qed

lemma o2mBatches_error:
  assumes "fst (rn B (int b * B) s) = Inl e"
  shows "o2mBatches rn mg B b items s = Some (Inl e, snd (rn B (int b * B) s))"
proof -
  obtain r s' where rs: "rn B (int b * B) s = (r, s')" by (cases "rn B (int b * B) s")
  show ?thesis
    by (subst o2mBatches.simps) (use rs assms in simp)
qed

lemma batchAnswer_0: "batchAnswer rn mg B b st 0 = fst (rn B (int b * B) (snd st))"
  by (simp add: batchAnswer_def)

lemma batchAnswer_Suc:
  "batchAnswer rn mg B b st (Suc k) = batchAnswer rn mg B (Suc b) (mergeBatch rn mg B b st) k"
  by (simp add: batchAnswer_def)

lemma o2mBatches_skip_full:
  "\<forall>j<n. fullBatch B (batchAnswer rn mg B b st j) \<Longrightarrow>
   o2mBatches rn mg B b (fst st) (snd st) =
   o2mBatches rn mg B (b + n) (fst (afterBatches rn mg B b n st)) (snd (afterBatches rn mg B b n st))"
proof (induction n arbitrary: b st)
  case 0
  then show ?case by simp
next
  case (Suc n)
  from Suc.prems have f0: "fullBatch B (fst (rn B (int b * B) (snd st)))"
    using batchAnswer_0[of rn mg B b st] by auto
  from Suc.prems have rest: "\<forall>j<n. fullBatch B (batchAnswer rn mg B (Suc b) (mergeBatch rn mg B b st) j)"
    using batchAnswer_Suc[of rn mg B b st] by auto
  have "o2mBatches rn mg B b (fst st) (snd st) =
        o2mBatches rn mg B (Suc b) (fst (mergeBatch rn mg B b st)) (snd (mergeBatch rn mg B b st))"
    using o2mBatches_full[of B rn b "snd st" mg "fst st"] f0 by simp
  also have "\<dots> = o2mBatches rn mg B (Suc b + n)
        (fst (afterBatches rn mg B (Suc b) n (mergeBatch rn mg B b st)))
        (snd (afterBatches rn mg B (Suc b) n (mergeBatch rn mg B b st)))"
    by (rule Suc.IH[OF rest])
  finally show ?case by simp
qed

lemma o2mBatches_returns_not_all_full:
  assumes "o2mBatches rn mg B b items s = Some r"
  shows "\<exists>n. \<not> fullBatch B (batchAnswer rn mg B b (items, s) n)"
proof (rule o2mBatches.raw_induct[where P = "\<lambda>rn mg B b items s r.
         \<exists>n. \<not> fullBatch B (batchAnswer rn mg B b (items, s) n)", OF _ assms], goal_cases)
  case (1 loop rn mg B b items s r)
  show ?case
  proof (cases "fullBatch B (fst (rn B (int b * B) s))")
    case False
    then have "\<not> fullBatch B (batchAnswer rn mg B b (items, s) 0)" by (simp add: batchAnswer_0)
    then show ?thesis by blast
  next
    case True
    obtain a s' where rs: "rn B (int b * B) s = (a, s')" by (cases "rn B (int b * B) s")
    with True obtain fetched where a: "a = Inr (Some fetched)" and len: "B \<le> int (length fetched)"
      by (cases "(B, a)" rule: fullBatch.cases) auto
    from 1(2) rs a len have "loop rn mg B (Suc b) (mg fetched items) s' = Some r" by simp
    from 1(1)[OF this] obtain n where
      "\<not> fullBatch B (batchAnswer rn mg B (Suc b) (mg fetched items, s') n)" by blast
    moreover have "mergeBatch rn mg B b (items, s) = (mg fetched items, s')" using rs a by simp
    ultimately have "\<not> fullBatch B (batchAnswer rn mg B b (items, s) (Suc n))"
      by (simp add: batchAnswer_Suc)
    then show ?thesis by blast
  qed
qed

lemma afterBatches_snoc:
  "afterBatches rn mg B b (Suc n) st = mergeBatch rn mg B (b + n) (afterBatches rn mg B b n st)"
  by (induction n arbitrary: b st) simp_all

text \<open>
  Claim C10. The loop started with \<^verbatim>\<open>batchCount = 0\<close> returns normally exactly when some
  fetch is the last one, that is, returns \<^verbatim>\<open>null\<close> or fewer than \<open>batchSize\<close> items, after
  full batches only. Fetch number \<open>k\<close> asks for \<open>batchSize\<close> items at offset
  \<open>k * batchSize\<close> (\<open>batchAnswer\<close>), the parent items returned are those obtained by merging
  every fetched batch in turn (\<open>afterBatches\<close>), and the final batch count is the number of
  fetches. When every fetch returns a full batch the loop does not return. (A fetch that
  throws ends the loop with that error, \<open>o2mBatches_error\<close>.)
\<close>

theorem o2mBatches_terminates_exactly:
  "(o2mBatches rn mg B 0 items s = Some (Inr (items', c), s') \<longleftrightarrow>
     (\<exists>n. c = Suc n
        \<and> (\<forall>j<n. fullBatch B (batchAnswer rn mg B 0 (items, s) j))
        \<and> lastBatch B (batchAnswer rn mg B 0 (items, s) n)
        \<and> afterBatches rn mg B 0 (Suc n) (items, s) = (items', s')))
   \<and> ((\<forall>j. fullBatch B (batchAnswer rn mg B 0 (items, s) j))
        \<longrightarrow> o2mBatches rn mg B 0 items s = None)"
proof (intro conjI impI iffI)
  assume "\<exists>n. c = Suc n
        \<and> (\<forall>j<n. fullBatch B (batchAnswer rn mg B 0 (items, s) j))
        \<and> lastBatch B (batchAnswer rn mg B 0 (items, s) n)
        \<and> afterBatches rn mg B 0 (Suc n) (items, s) = (items', s')"
  then obtain n where c: "c = Suc n"
    and full: "\<forall>j<n. fullBatch B (batchAnswer rn mg B 0 (items, s) j)"
    and last: "lastBatch B (batchAnswer rn mg B 0 (items, s) n)"
    and after: "afterBatches rn mg B 0 (Suc n) (items, s) = (items', s')" by blast
  let ?st = "afterBatches rn mg B 0 n (items, s)"
  have "o2mBatches rn mg B 0 items s = o2mBatches rn mg B n (fst ?st) (snd ?st)"
    using o2mBatches_skip_full[OF full] by simp
  moreover have "lastBatch B (fst (rn B (int n * B) (snd ?st)))"
    using last by (simp add: batchAnswer_def)
  moreover have "afterBatches rn mg B 0 (Suc n) (items, s) = mergeBatch rn mg B n ?st"
    using afterBatches_snoc[of rn mg B 0 n "(items, s)"] by simp
  ultimately show "o2mBatches rn mg B 0 items s = Some (Inr (items', c), s')"
    using o2mBatches_last[of B rn n "snd ?st" mg "fst ?st"] c after by simp
next
  assume L: "o2mBatches rn mg B 0 items s = Some (Inr (items', c), s')"
  let ?st = "(items, s)"
  from o2mBatches_returns_not_all_full[OF L]
  have ex: "\<exists>n. \<not> fullBatch B (batchAnswer rn mg B 0 ?st n)" .
  define n where "n = (LEAST n. \<not> fullBatch B (batchAnswer rn mg B 0 ?st n))"
  have notfull: "\<not> fullBatch B (batchAnswer rn mg B 0 ?st n)"
    unfolding n_def using ex by (rule LeastI_ex)
  have full: "\<forall>j<n. fullBatch B (batchAnswer rn mg B 0 ?st j)"
    unfolding n_def using not_less_Least by blast
  let ?at = "afterBatches rn mg B 0 n ?st"
  have skip: "o2mBatches rn mg B 0 items s = o2mBatches rn mg B n (fst ?at) (snd ?at)"
    using o2mBatches_skip_full[OF full] by simp
  have ans: "batchAnswer rn mg B 0 ?st n = fst (rn B (int n * B) (snd ?at))"
    by (simp add: batchAnswer_def)
  have snoc: "afterBatches rn mg B 0 (Suc n) ?st = mergeBatch rn mg B n ?at"
    using afterBatches_snoc[of rn mg B 0 n ?st] by simp
  from batch_trichotomy[of B "batchAnswer rn mg B 0 ?st n"] notfull
  consider (last) "lastBatch B (batchAnswer rn mg B 0 ?st n)"
    | (err) e where "batchAnswer rn mg B 0 ?st n = Inl e" by blast
  then show "\<exists>n. c = Suc n
        \<and> (\<forall>j<n. fullBatch B (batchAnswer rn mg B 0 (items, s) j))
        \<and> lastBatch B (batchAnswer rn mg B 0 (items, s) n)
        \<and> afterBatches rn mg B 0 (Suc n) (items, s) = (items', s')"
  proof cases
    case last
    then have "o2mBatches rn mg B n (fst ?at) (snd ?at) =
        Some (Inr (fst (mergeBatch rn mg B n ?at), Suc n), snd (mergeBatch rn mg B n ?at))"
      using o2mBatches_last[of B rn n "snd ?at" mg "fst ?at"] ans by simp
    with L skip snoc have "c = Suc n" and "afterBatches rn mg B 0 (Suc n) ?st = (items', s')"
      by (simp_all add: prod_eq_iff)
    with full last show ?thesis by blast
  next
    case err
    then have "o2mBatches rn mg B n (fst ?at) (snd ?at)
        = Some (Inl e, snd (rn B (int n * B) (snd ?at)))"
      using o2mBatches_error[of rn B n "snd ?at" e mg "fst ?at"] ans by simp
    with L skip show ?thesis by simp
  qed
next
  assume all: "\<forall>j. fullBatch B (batchAnswer rn mg B 0 (items, s) j)"
  show "o2mBatches rn mg B 0 items s = None"
  proof (cases "o2mBatches rn mg B 0 items s")
    case None
    then show ?thesis .
  next
    case (Some r)
    from o2mBatches_returns_not_all_full[OF Some] all show ?thesis by blast
  qed
qed

text \<open>
  One parent item and five children fetched in batches of two: three fetches, at offsets 0, 2
  and 4, the last one short. With the batch size 0 no batch is ever short and the loop does
  not return.
\<close>

theorem o2mBatches_terminates_exactly_witness:
  "o2mBatches (childrenPage [10, 20, 30, 40, 50]) appendFetched 2 0 [1] ()
     = Some (Inr ([1, 10, 20, 30, 40, 50], 3), ())
   \<and> o2mBatches (childrenPage [10, 20, 30, 40, 50]) appendFetched 0 0 [1] () = None"
proof -
  let ?rn = "childrenPage [10, 20, 30, 40, 50]"
  have a0: "afterBatches ?rn appendFetched 2 0 0 ([1], ()) = ([1], ())" by simp
  have a1: "afterBatches ?rn appendFetched 2 0 (Suc 0) ([1], ()) = ([1, 10, 20], ())"
    by (simp add: childrenPage_def appendFetched_def)
  have a2: "afterBatches ?rn appendFetched 2 0 (Suc (Suc 0)) ([1], ()) = ([1, 10, 20, 30, 40], ())"
    by (simp add: childrenPage_def appendFetched_def)
  have a3: "afterBatches ?rn appendFetched 2 0 (Suc (Suc (Suc 0))) ([1], ())
              = ([1, 10, 20, 30, 40, 50], ())"
    by (simp add: childrenPage_def appendFetched_def)
  have f0: "fullBatch 2 (batchAnswer ?rn appendFetched 2 0 ([1], ()) 0)"
    unfolding batchAnswer_def a0 by (simp add: childrenPage_def)
  have f1: "fullBatch 2 (batchAnswer ?rn appendFetched 2 0 ([1], ()) (Suc 0))"
    unfolding batchAnswer_def a1 by (simp add: childrenPage_def)
  have l2: "lastBatch 2 (batchAnswer ?rn appendFetched 2 0 ([1], ()) (Suc (Suc 0)))"
    unfolding batchAnswer_def a2 by (simp add: childrenPage_def)
  have full: "\<forall>j<Suc (Suc 0). fullBatch 2 (batchAnswer ?rn appendFetched 2 0 ([1], ()) j)"
    using f0 f1 by (simp add: less_Suc_eq)
  have zero: "\<forall>j. fullBatch 0 (batchAnswer ?rn appendFetched 0 0 ([1], ()) j)"
    by (simp add: batchAnswer_def childrenPage_def)
  from o2mBatches_terminates_exactly[of ?rn appendFetched 2 "[1]" "()" "[1, 10, 20, 30, 40, 50]" 3 "()"]
       full l2 a3
  have "o2mBatches ?rn appendFetched 2 0 [1] () = Some (Inr ([1, 10, 20, 30, 40, 50], 3), ())"
    by (metis numeral_3_eq_3)
  moreover from o2mBatches_terminates_exactly[of ?rn appendFetched 0 "[1]" "()" "[1]" 0 "()"] zero
  have "o2mBatches ?rn appendFetched 0 0 [1] () = None" by blast
  ultimately show ?thesis by simp
qed

section \<open>Properties of applyFilter\<close>

subsection \<open>An empty or-group\<close>

text \<open>
  Claim C5. For the filter \<^verbatim>\<open>{ _or: [] }\<close> the only call made on the builder is a
  \<^verbatim>\<open>where\<close> with a callback whose body makes no call: the group is empty, no comparison is
  added to the query, and so no comparison that is always false.
\<close>

theorem empty_or_adds_no_comparison:
  "addWhereClauses relations nanoid aliasMap dbQuery (JObj [(''_or'', JArr [])]) collection logical n
     = Inr (addWhere (WhereGroup logical []) dbQuery, n)
   \<and> concat (map comparisons (wheres (addWhere (WhereGroup logical []) dbQuery)))
     = concat (map comparisons (wheres dbQuery))
   \<and> applyFilter relations nanoid dbQuery (JObj [(''_or'', JArr [])]) collection n
     = Inr (addWhere (WhereGroup L_and []) dbQuery, n)"
  by (simp add: addWhere_def)

theorem empty_or_adds_no_comparison_witness:
  "applyFilter exampleRelations exampleNanoid selectArticles (JObj [(''_or'', JArr [])]) ''articles'' 0
     = Inr (QueryBuilder [''*''] (Some ''articles'') [] [WhereGroup L_and []], 0)
   \<and> concat (map comparisons [WhereGroup L_and []]) = []"
  using empty_or_adds_no_comparison[of exampleRelations exampleNanoid "[]" selectArticles
          "''articles''" L_and 0]
  by (simp add: addWhere_def selectArticles_def)

text \<open>
  An or-group with a child that has no keys, such as the empty object, is skipped: no call is
  made on the builder.
\<close>

lemma or_with_empty_child_is_skipped:
  "someEmpty subFilters = Inr True \<Longrightarrow>
   addWhereClauses relations nanoid aliasMap dbQuery (JObj [(''_or'', JArr subFilters)])
     collection logical n = Inr (dbQuery, n)"
  by simp

subsection \<open>Joins follow many-to-one relations only\<close>

lemma endsWith_append: "endsWith (a @ b) b"
  by (simp add: endsWith_def)

lemma joins_addWhere: "joins (addWhere call dbQuery) = joins dbQuery"
  by (simp add: addWhere_def)

lemma joins_addLeftJoin: "joins (addLeftJoin j dbQuery) = joins dbQuery @ [j]"
  by (simp add: addLeftJoin_def)

lemma joins_foldl_addWhere:
  "joins (foldl (\<lambda>q (applies, call). if applies then addWhere call q else q) dbQuery calls) = joins dbQuery"
  by (induction calls arbitrary: dbQuery) (auto simp: joins_addWhere)

lemma joins_applyFilterToQuery:
  "joins (applyFilterToQuery key operator compareValue logical dbQuery) = joins dbQuery"
  unfolding applyFilterToQuery_def by (rule joins_foldl_addWhere)

lemma find_many_side:
  "find (\<lambda>relation. Some (many_collection relation) = pc \<and> many_field relation = p) relations = Some r
   \<Longrightarrow> r \<in> set relations \<and> Some (many_collection r) = pc \<and> many_field r = p"
  by (auto simp: find_Some_iff)

lemma addJoin_followRelation_joins:
  "\<exists>new. joins (fst (addJoin_followRelation relations nanoid pathParts pc pa st)) = joins (fst st) @ new
         \<and> (\<forall>j \<in> set new. \<exists>r \<in> set relations. viaManyToOne r j)"
proof (induction relations nanoid pathParts pc pa st rule: addJoin_followRelation.induct)
  case (1 relations nanoid pc pa st)
  then show ?case by simp
next
  case (2 relations nanoid p pathParts pc pa dbQuery aliasMap n)
  show ?case
  proof (cases "find (\<lambda>relation. Some (many_collection relation) = pc \<and> many_field relation = p) relations")
    case None
    then show ?thesis by simp
  next
    case (Some r)
    note fm = find_many_side[OF Some]
    define j where "j = \<lparr> join_alias = nanoid n, join_table = one_collection r,
        join_first = orElse pa (templateText pc) @ ''.'' @ many_field r,
        join_second = nanoid n @ ''.'' @ templateText (one_primary r) \<rparr>"
    have vj: "viaManyToOne r j"
      unfolding viaManyToOne_def j_def using endsWith_append[of "orElse pa (templateText pc)" "''.'' @ many_field r"]
      by simp
    show ?thesis
    proof (cases "pathParts = []")
      case True
      with Some have "joins (fst (addJoin_followRelation relations nanoid (p # pathParts) pc pa (dbQuery, aliasMap, n)))
          = joins dbQuery @ [j]"
        by (simp add: Let_def joins_addLeftJoin j_def)
      with vj fm show ?thesis by auto
    next
      case False
      let ?st' = "(addLeftJoin j dbQuery, AList.update (joinPlus (p # pathParts)) (nanoid n) aliasMap, Suc n)"
      from Some False have eq: "addJoin_followRelation relations nanoid (p # pathParts) pc pa (dbQuery, aliasMap, n)
          = addJoin_followRelation relations nanoid pathParts (one_collection r) (Some (nanoid n)) ?st'"
        by (simp add: Let_def j_def)
      from "2.IH"[OF Some refl refl refl False, folded j_def]
      obtain new where new: "joins (fst (addJoin_followRelation relations nanoid pathParts (one_collection r) (Some (nanoid n)) ?st'))
           = joins (fst ?st') @ new" and all: "\<forall>j \<in> set new. \<exists>r \<in> set relations. viaManyToOne r j"
        by blast
      from new eq have "joins (fst (addJoin_followRelation relations nanoid (p # pathParts) pc pa (dbQuery, aliasMap, n)))
           = joins dbQuery @ (j # new)" by (simp add: joins_addLeftJoin)
      moreover from all vj fm have "\<forall>j' \<in> set (j # new). \<exists>r \<in> set relations. viaManyToOne r j'" by auto
      ultimately show ?thesis by (metis fst_conv)
    qed
  qed
qed

lemma onlyManyToOneJoinsAdded_iff:
  "onlyManyToOneJoinsAdded relations before after \<longleftrightarrow>
   (\<exists>new. joins after = joins before @ new \<and> (\<forall>j \<in> set new. \<exists>r \<in> set relations. viaManyToOne r j))"
  (is "?L \<longleftrightarrow> ?R")
proof
  assume ?L
  then have "joins after = joins before @ drop (length (joins before)) (joins after)"
    unfolding onlyManyToOneJoinsAdded_def by (metis append_take_drop_id)
  with \<open>?L\<close> show ?R unfolding onlyManyToOneJoinsAdded_def by blast
next
  assume ?R
  then show ?L unfolding onlyManyToOneJoinsAdded_def by auto
qed

lemma onlyManyToOneJoinsAdded_refl: "onlyManyToOneJoinsAdded relations q q"
  by (simp add: onlyManyToOneJoinsAdded_def)

lemma onlyManyToOneJoinsAdded_same:
  "joins q' = joins q \<Longrightarrow> onlyManyToOneJoinsAdded relations q q'"
  by (simp add: onlyManyToOneJoinsAdded_def)

lemma onlyManyToOneJoinsAdded_trans:
  assumes "onlyManyToOneJoinsAdded relations q1 q2" and "onlyManyToOneJoinsAdded relations q2 q3"
  shows "onlyManyToOneJoinsAdded relations q1 q3"
proof -
  from assms obtain n1 n2 where
    a: "joins q2 = joins q1 @ n1" "\<forall>j \<in> set n1. \<exists>r \<in> set relations. viaManyToOne r j" and
    b: "joins q3 = joins q2 @ n2" "\<forall>j \<in> set n2. \<exists>r \<in> set relations. viaManyToOne r j"
    unfolding onlyManyToOneJoinsAdded_iff by blast
  then have "joins q3 = joins q1 @ (n1 @ n2)"
    and "\<forall>j \<in> set (n1 @ n2). \<exists>r \<in> set relations. viaManyToOne r j" by auto
  then show ?thesis unfolding onlyManyToOneJoinsAdded_iff by blast
qed

lemma addJoin_onlyManyToOne:
  "onlyManyToOneJoinsAdded relations (fst st) (fst (addJoin relations nanoid path collection st))"
  unfolding addJoin_def onlyManyToOneJoinsAdded_iff by (rule addJoin_followRelation_joins)

lemma addJoins_onlyManyToOne:
  "addJoins relations nanoid collection flt st = Inr st' \<Longrightarrow>
     onlyManyToOneJoinsAdded relations (fst st) (fst st')"
  "addJoins_entries relations nanoid collection entries st = Inr st' \<Longrightarrow>
     onlyManyToOneJoinsAdded relations (fst st) (fst st')"
  "addJoins_forEach relations nanoid collection subFilters st = Inr st' \<Longrightarrow>
     onlyManyToOneJoinsAdded relations (fst st) (fst st')"
proof (induction relations nanoid collection flt st and relations nanoid collection entries st
        and relations nanoid collection subFilters st
        arbitrary: st' and st' and st'
        rule: addJoins_addJoins_entries_addJoins_forEach.induct)
  case (3 relations nanoid collection key "value" rest st)
  show ?case
  proof (cases "key = ''_or'' \<or> key = ''_and''")
    case True
    with "3.prems" obtain subFilters where v: "value = JArr subFilters"
      by (cases "value") auto
    show ?thesis
    proof (cases "if key = ''_or'' then someEmpty subFilters else Inr False")
      case (Inl e)
      with "3.prems" True v show ?thesis by simp
    next
      case (Inr skip)
      show ?thesis
      proof (cases skip)
        case True
        with "3.prems" \<open>key = ''_or'' \<or> key = ''_and''\<close> v Inr
        have "addJoins_entries relations nanoid collection rest st = Inr st'" by simp
        moreover from True have "skip = True" by simp
        ultimately show ?thesis
          using "3.IH"(1)[OF \<open>key = ''_or'' \<or> key = ''_and''\<close> v Inr] by blast
      next
        case False
        with "3.prems" \<open>key = ''_or'' \<or> key = ''_and''\<close> v Inr obtain st1 where
          f: "addJoins_forEach relations nanoid collection subFilters st = Inr st1" and
          r: "addJoins_entries relations nanoid collection rest st1 = Inr st'"
          by (auto split: sum.splits)
        from False have sk: "skip = False" by simp
        from "3.IH"(2)[OF \<open>key = ''_or'' \<or> key = ''_and''\<close> v Inr sk f]
             "3.IH"(3)[OF \<open>key = ''_or'' \<or> key = ''_and''\<close> v Inr sk f r]
        show ?thesis by (rule onlyManyToOneJoinsAdded_trans)
      qed
    qed
  next
    case False
    with "3.prems" obtain filterPath where
      p: "getFilterPath key value = Inr filterPath" and
      r: "addJoins_entries relations nanoid collection rest
            (if length filterPath > 1 then addJoin relations nanoid filterPath collection st else st) = Inr st'"
      by (auto split: sum.splits)
    have "onlyManyToOneJoinsAdded relations (fst st)
            (fst (if length filterPath > 1 then addJoin relations nanoid filterPath collection st else st))"
      by (simp add: addJoin_onlyManyToOne onlyManyToOneJoinsAdded_refl)
    from this "3.IH"(4)[OF False p r] show ?thesis by (rule onlyManyToOneJoinsAdded_trans)
  qed
next
  case (5 relations nanoid collection subFilter rest st)
  from "5.prems" obtain st1 where
    a: "addJoins relations nanoid collection subFilter st = Inr st1" and
    b: "addJoins_forEach relations nanoid collection rest st1 = Inr st'"
    by (auto split: sum.splits)
  from "5.IH"(1)[OF a] "5.IH"(2)[OF a b] show ?case by (rule onlyManyToOneJoinsAdded_trans)
qed (auto simp: onlyManyToOneJoinsAdded_refl split: sum.splits)

lemma addWhereClauses_joins:
  "applyQuery relations nanoid collection dbQuery filterValue n = Inr res \<Longrightarrow> True"
  "applyFilter relations nanoid rootQuery rootFilter collection n = Inr res \<Longrightarrow> True"
  "addWhereClauses relations nanoid aliasMap dbQuery flt collection logical n = Inr res \<Longrightarrow>
     joins (fst res) = joins dbQuery"
  "addWhereClauses_entries relations nanoid aliasMap dbQuery entries collection logical n = Inr res \<Longrightarrow>
     joins (fst res) = joins dbQuery"
  "addWhereClauses_forEach relations nanoid aliasMap dbQuery subFilters collection logical n = Inr res \<Longrightarrow>
     joins (fst res) = joins dbQuery"
proof (induction relations nanoid collection dbQuery filterValue n
        and relations nanoid rootQuery rootFilter collection n
        and relations nanoid aliasMap dbQuery flt collection logical n
        and relations nanoid aliasMap dbQuery entries collection logical n
        and relations nanoid aliasMap dbQuery subFilters collection logical n
        arbitrary: res and res and res and res and res
        rule: applyQuery_applyFilter_addWhereClauses_addWhereClauses_entries_addWhereClauses_forEach.induct)
  case (5 relations nanoid aliasMap dbQuery key "value" rest collection logical n)
  show ?case
  proof (cases "key = ''_or'' \<or> key = ''_and''")
    case True
    with "5.prems" obtain subFilters where v: "value = JArr subFilters"
      by (cases "value") auto
    show ?thesis
    proof (cases "if key = ''_or'' then someEmpty subFilters else Inr False")
      case (Inl e)
      with "5.prems" True v show ?thesis by simp
    next
      case (Inr skip)
      show ?thesis
      proof (cases skip)
        case True
        then have sk: "skip = True" by simp
        from "5.prems" \<open>key = ''_or'' \<or> key = ''_and''\<close> v Inr sk
        have "addWhereClauses_entries relations nanoid aliasMap dbQuery rest collection logical n = Inr res"
          by simp
        from "5.IH"(1)[OF \<open>key = ''_or'' \<or> key = ''_and''\<close> v Inr sk this] show ?thesis .
      next
        case False
        then have sk: "skip = False" by simp
        from "5.prems" \<open>key = ''_or'' \<or> key = ''_and''\<close> v Inr sk obtain subQuery n' where
          f: "addWhereClauses_forEach relations nanoid aliasMap (QueryBuilder [] None [] []) subFilters
                collection (if key = ''_and'' then L_and else L_or) n = Inr (subQuery, n')" and
          r: "addWhereClauses_entries relations nanoid aliasMap
                (addWhere (WhereGroup logical (wheres subQuery)) dbQuery) rest collection logical n' = Inr res"
          by (auto split: sum.splits)
        from "5.IH"(3)[OF \<open>key = ''_or'' \<or> key = ''_and''\<close> v Inr sk f refl r]
        show ?thesis by (simp add: joins_addWhere)
      qed
    qed
  next
    case False
    with "5.prems" obtain filterPath filterOperator filterValue where
      p: "getFilterPath key value = Inr filterPath" and
      o: "getOperation key value = Inr (filterOperator, filterValue)"
      by (auto split: sum.splits)
    show ?thesis
    proof (cases "length filterPath > 1")
      case long: True
      show ?thesis
      proof (cases "find (\<lambda>relation. one_collection relation = Some collection
                                  \<and> one_field relation = Some (hd filterPath)) relations")
        case None
        with "5.prems" False p o long
        have r: "addWhereClauses_entries relations nanoid aliasMap
                   (applyFilterToQuery (getWhereColumn relations aliasMap filterPath collection)
                      filterOperator filterValue logical dbQuery) rest collection logical n = Inr res"
          by simp
        from "5.IH"(4)[OF False p o refl long None r]
        show ?thesis by (simp add: joins_applyFilterToQuery)
      next
        case (Some o2mRelation)
        with "5.prems" False p o long obtain subQuery n' where
          a: "applyQuery relations nanoid (many_collection o2mRelation)
                (QueryBuilder [many_field o2mRelation] (Some (many_collection o2mRelation)) [] [])
                value n = Inr (subQuery, n')" and
          r: "addWhereClauses_entries relations nanoid aliasMap
                (addWhere (WhereInSubQuery logical
                   (collection @ ''.'' @ orElse (one_primary o2mRelation) ''id'') subQuery) dbQuery)
                rest collection logical n' = Inr res"
          by (auto split: sum.splits)
        from "5.IH"(6)[OF False p o refl long Some a refl r]
        show ?thesis by (simp add: joins_addWhere)
      qed
    next
      case short: False
      with "5.prems" False p o
      have r: "addWhereClauses_entries relations nanoid aliasMap
                 (applyFilterToQuery (collection @ ''.'' @ hd filterPath)
                    filterOperator filterValue logical dbQuery) rest collection logical n = Inr res"
        by simp
      from "5.IH"(7)[OF False p o refl short r]
      show ?thesis by (simp add: joins_applyFilterToQuery)
    qed
  qed
next
  case (7 relations nanoid aliasMap subQuery subFilter rest collection logical n)
  from "7.prems" obtain q1 n1 where
    a: "addWhereClauses relations nanoid aliasMap subQuery subFilter collection logical n = Inr (q1, n1)" and
    b: "addWhereClauses_forEach relations nanoid aliasMap q1 rest collection logical n1 = Inr res"
    by (auto split: sum.splits)
  from "7.IH"(1)[OF a] "7.IH"(2)[OF a refl b] show ?case by simp
qed (auto split: sum.splits)

lemma applyFilter_joins_manyToOne:
  assumes "applyFilter relations nanoid rootQuery rootFilter collection n = Inr (dbQuery', n')"
  shows "onlyManyToOneJoinsAdded relations rootQuery dbQuery'"
proof -
  from assms obtain joined aliasMap n1 where
    j: "addJoins relations nanoid collection rootFilter (rootQuery, [], n) = Inr (joined, aliasMap, n1)" and
    w: "addWhereClauses relations nanoid aliasMap joined rootFilter collection L_and n1 = Inr (dbQuery', n')"
    by (auto split: sum.splits)
  from addJoins_onlyManyToOne(1)[OF j] have "onlyManyToOneJoinsAdded relations rootQuery joined" by simp
  moreover from addWhereClauses_joins(3)[OF w] have "joins dbQuery' = joins joined" by simp
  ultimately show ?thesis
    using onlyManyToOneJoinsAdded_trans onlyManyToOneJoinsAdded_same by blast
qed

lemma addJoin_without_manyToOne:
  assumes "\<forall>r \<in> set relations. \<not> (many_collection r = collection \<and> many_field r = hd path)"
  shows "addJoin relations nanoid path collection st = st"
proof (cases path)
  case Nil
  then show ?thesis by (simp add: addJoin_def)
next
  case (Cons p pathParts)
  with assms have "find (\<lambda>relation. Some (many_collection relation) = Some collection
                            \<and> many_field relation = p) relations = None"
    by (auto simp: find_None_iff)
  with Cons show ?thesis by (cases st) (simp add: addJoin_def)
qed

subsection \<open>One-to-many relations\<close>

text \<open>
  Claim C7. Every join that the join pass \<open>addJoins\<close> adds to the root query follows a
  relation from its many side (many-to-one), and the where clauses add none, so the same
  holds of \<open>applyFilter\<close>; a path whose first step is not the many side of a relation, such
  as a one-to-many field, adds no join (in \<open>addWhereClauses\<close> it becomes a sub-select). In
  the driver, when the compiled query has nested-many entries, \<open>query\<close> runs the root query
  and hands its rows, the entries and the database function to the merge, whatever the
  merge is, in the state in which the root query left the database. And with the merge of
  the spec: when \<open>query\<close> returns a stream, the first query run was the root query, and for
  every row that it returned and every nested-many entry of the compiled query, the
  sub-query that the entry generates from the identifier fields of that row has been run
  after it.
\<close>

theorem one_to_many_never_joined:
  "(addJoins relations nanoid collection rootFilter (rootQuery, aliasMap0, n) = Inr (joined, aliasMap, n1)
      \<longrightarrow> onlyManyToOneJoinsAdded relations rootQuery joined)
   \<and> (applyFilter relations nanoid rootQuery rootFilter collection n = Inr (dbQuery', n')
      \<longrightarrow> onlyManyToOneJoinsAdded relations rootQuery dbQuery')
   \<and> ((\<forall>r \<in> set relations. \<not> (many_collection r = collection \<and> many_field r = hd path))
      \<longrightarrow> addJoin relations nanoid path collection st = st)
   \<and> (convertQuery q = Inr abstractSql \<and> queryDB abstractSql s = (Inr rootStream, afterRoot)
        \<and> nestedManys abstractSql \<noteq> []
      \<longrightarrow> query convertQuery queryDB mergeWithRoot q s
            = mergeWithRoot rootStream (nestedManys abstractSql) queryDB afterRoot)
   \<and> (convertQuery q = Inr abstractSql \<and> queryDB abstractSql s = (Inr rootStream, afterRoot)
        \<and> query convertQuery (recording queryDB) makeSubQueriesAndMergeWithRoot q ([], s)
            = (Inr out, (queries, s'))
      \<longrightarrow> (\<exists>subs. queries = abstractSql # subs
                \<and> (\<forall>rootChunk \<in> set rootStream. \<forall>nm \<in> set (nestedManys abstractSql).
                      \<exists>vals. internalRelationalFieldValues rootChunk (internalIdentifierFields nm)
                                = Some vals
                             \<and> queryGenerator nm vals \<in> set subs)))"
proof (intro conjI impI)
  assume "addJoins relations nanoid collection rootFilter (rootQuery, aliasMap0, n) = Inr (joined, aliasMap, n1)"
  from addJoins_onlyManyToOne(1)[OF this]
  show "onlyManyToOneJoinsAdded relations rootQuery joined" by simp
next
  assume "applyFilter relations nanoid rootQuery rootFilter collection n = Inr (dbQuery', n')"
  then show "onlyManyToOneJoinsAdded relations rootQuery dbQuery'"
    by (rule applyFilter_joins_manyToOne)
next
  assume "\<forall>r \<in> set relations. \<not> (many_collection r = collection \<and> many_field r = hd path)"
  then show "addJoin relations nanoid path collection st = st"
    by (rule addJoin_without_manyToOne)
next
  assume "convertQuery q = Inr abstractSql \<and> queryDB abstractSql s = (Inr rootStream, afterRoot)
        \<and> nestedManys abstractSql \<noteq> []"
  then show "query convertQuery queryDB mergeWithRoot q s
            = mergeWithRoot rootStream (nestedManys abstractSql) queryDB afterRoot"
    by (simp add: query_def)
next
  assume "convertQuery q = Inr abstractSql \<and> queryDB abstractSql s = (Inr rootStream, afterRoot)
        \<and> query convertQuery (recording queryDB) makeSubQueriesAndMergeWithRoot q ([], s)
            = (Inr out, (queries, s'))"
  then show "\<exists>subs. queries = abstractSql # subs
                \<and> (\<forall>rootChunk \<in> set rootStream. \<forall>nm \<in> set (nestedManys abstractSql).
                      \<exists>vals. internalRelationalFieldValues rootChunk (internalIdentifierFields nm)
                                = Some vals
                             \<and> queryGenerator nm vals \<in> set subs)"
    using query_asks_sub_queries[of convertQuery q abstractSql queryDB s rootStream afterRoot out queries s']
    by blast
qed

text \<open>
  A filter through the many-to-one relation \<^verbatim>\<open>author\<close> adds one join; a filter through the
  one-to-many relation \<^verbatim>\<open>comments\<close> adds a sub-select and no join.
\<close>

lemma addJoins_author_name:
  "addJoins exampleRelations exampleNanoid ''articles''
     (JObj [(''author'', JObj [(''name'', JObj [(''_eq'', JStr ''x'')])])]) (selectArticles, [], 0)
   = Inr (QueryBuilder [''*''] (Some ''articles'')
            [\<lparr> join_alias = ''alias'', join_table = Some ''authors'',
               join_first = ''articles.author'', join_second = ''alias.id'' \<rparr>] [],
          [(''author+name'', ''alias'')], 1)"
  by code_simp

lemma addJoins_comments_text:
  "addJoins exampleRelations exampleNanoid ''articles''
     (JObj [(''comments'', JObj [(''text'', JObj [(''_contains'', JStr ''x'')])])]) (selectArticles, [], 0)
   = Inr (selectArticles, [], 0)"
  by code_simp

lemma applyFilter_author_name:
  "applyFilter exampleRelations exampleNanoid selectArticles
     (JObj [(''author'', JObj [(''name'', JObj [(''_eq'', JStr ''x'')])])]) ''articles'' 0
   = Inr (QueryBuilder [''*''] (Some ''articles'')
            [\<lparr> join_alias = ''alias'', join_table = Some ''authors'',
               join_first = ''articles.author'', join_second = ''alias.id'' \<rparr>]
            [Where L_and ''alias.name'' (JStr ''x'')], 1)"
  by code_simp

lemma applyFilter_comments_text:
  "applyFilter exampleRelations exampleNanoid selectArticles
     (JObj [(''comments'', JObj [(''text'', JObj [(''_contains'', JStr ''x'')])])]) ''articles'' 0
   = Inr (QueryBuilder [''*''] (Some ''articles'') []
            [WhereInSubQuery L_and ''articles.id''
               (QueryBuilder [''article''] (Some ''comments'') []
                  [WhereOp L_and ''comments.text'' ''like'' (Contains (JStr ''x''))])], 0)"
  by code_simp

theorem one_to_many_never_joined_witness:
  "onlyManyToOneJoinsAdded exampleRelations selectArticles
     (QueryBuilder [''*''] (Some ''articles'')
        [\<lparr> join_alias = ''alias'', join_table = Some ''authors'',
           join_first = ''articles.author'', join_second = ''alias.id'' \<rparr>] [])
   \<and> addJoins exampleRelations exampleNanoid ''articles''
       (JObj [(''comments'', JObj [(''text'', JObj [(''_contains'', JStr ''x'')])])])
       (selectArticles, [], 0) = Inr (selectArticles, [], 0)
   \<and> onlyManyToOneJoinsAdded exampleRelations selectArticles
     (QueryBuilder [''*''] (Some ''articles'')
        [\<lparr> join_alias = ''alias'', join_table = Some ''authors'',
           join_first = ''articles.author'', join_second = ''alias.id'' \<rparr>]
        [Where L_and ''alias.name'' (JStr ''x'')])
   \<and> onlyManyToOneJoinsAdded exampleRelations selectArticles
     (QueryBuilder [''*''] (Some ''articles'') []
        [WhereInSubQuery L_and ''articles.id''
           (QueryBuilder [''article''] (Some ''comments'') []
              [WhereOp L_and ''comments.text'' ''like'' (Contains (JStr ''x''))])])
   \<and> addJoin exampleRelations exampleNanoid [''comments'', ''text''] ''articles''
         (selectArticles, [], 0) = (selectArticles, [], 0)
   \<and> query (\<lambda>q. Inr articlesWithThreads) threadsDatabase
       (\<lambda>rootStream manys queryDB s. (Inl MergeError, s)) () () = (Inl MergeError, ())
   \<and> (\<exists>subs. fst (snd (query (\<lambda>q. Inr articlesWithThreads) (recording threadsDatabase)
                         makeSubQueriesAndMergeWithRoot () ([], ())))
                = articlesWithThreads # subs
              \<and> queryGenerator threadsOfArticle [JNum 1] \<in> set subs
              \<and> queryGenerator threadsOfArticle [JNum 2] \<in> set subs)"
proof (intro conjI)
  show "onlyManyToOneJoinsAdded exampleRelations selectArticles
     (QueryBuilder [''*''] (Some ''articles'')
        [\<lparr> join_alias = ''alias'', join_table = Some ''authors'',
           join_first = ''articles.author'', join_second = ''alias.id'' \<rparr>] [])"
    by (rule one_to_many_never_joined[THEN conjunct1, THEN mp, OF addJoins_author_name])
next
  show "addJoins exampleRelations exampleNanoid ''articles''
       (JObj [(''comments'', JObj [(''text'', JObj [(''_contains'', JStr ''x'')])])])
       (selectArticles, [], 0) = Inr (selectArticles, [], 0)"
    by (rule addJoins_comments_text)
next
  show "onlyManyToOneJoinsAdded exampleRelations selectArticles
     (QueryBuilder [''*''] (Some ''articles'')
        [\<lparr> join_alias = ''alias'', join_table = Some ''authors'',
           join_first = ''articles.author'', join_second = ''alias.id'' \<rparr>]
        [Where L_and ''alias.name'' (JStr ''x'')])"
    by (rule one_to_many_never_joined[THEN conjunct2, THEN conjunct1, THEN mp,
          OF applyFilter_author_name])
next
  show "onlyManyToOneJoinsAdded exampleRelations selectArticles
     (QueryBuilder [''*''] (Some ''articles'') []
        [WhereInSubQuery L_and ''articles.id''
           (QueryBuilder [''article''] (Some ''comments'') []
              [WhereOp L_and ''comments.text'' ''like'' (Contains (JStr ''x''))])])"
    by (rule one_to_many_never_joined[THEN conjunct2, THEN conjunct1, THEN mp,
          OF applyFilter_comments_text])
next
  have none: "\<forall>r \<in> set exampleRelations.
          \<not> (many_collection r = ''articles'' \<and> many_field r = hd [''comments'', ''text''])"
    by (simp add: exampleRelations_def)
  show "addJoin exampleRelations exampleNanoid [''comments'', ''text''] ''articles''
         (selectArticles, [], 0) = (selectArticles, [], 0)"
    by (rule one_to_many_never_joined[THEN conjunct2, THEN conjunct2, THEN conjunct1, THEN mp,
          OF none])
next
  have conv: "(\<lambda>q::unit. Inr articlesWithThreads :: error + string abstractSqlQuery) ()
                = Inr articlesWithThreads" by simp
  have root: "threadsDatabase articlesWithThreads () = (Inr articles, ())"
    by (simp add: threadsDatabase_def articlesWithThreads_def)
  have entries: "nestedManys articlesWithThreads \<noteq> []"
    by (simp add: articlesWithThreads_def)
  from one_to_many_never_joined[where convertQuery = "\<lambda>q::unit. Inr articlesWithThreads" and q = "()"
          and mergeWithRoot = "\<lambda>rootStream manys queryDB s. (Inl MergeError, s)"
          and queryDB = threadsDatabase and s = "()" and abstractSql = articlesWithThreads
          and rootStream = articles and afterRoot = "()",
          THEN conjunct2, THEN conjunct2, THEN conjunct2, THEN conjunct1, THEN mp,
          OF conjI[OF conv conjI[OF root entries]]]
  show "query (\<lambda>q. Inr articlesWithThreads) threadsDatabase
       (\<lambda>rootStream manys queryDB s. (Inl MergeError, s)) () () = (Inl MergeError, ())"
    by simp
next
  have conv: "(\<lambda>q::unit. Inr articlesWithThreads :: error + string abstractSqlQuery) ()
                = Inr articlesWithThreads" by simp
  have root: "threadsDatabase articlesWithThreads () = (Inr articles, ())"
    by (simp add: threadsDatabase_def articlesWithThreads_def)
  from one_to_many_never_joined[where convertQuery = "\<lambda>q::unit. Inr articlesWithThreads" and q = "()",
          THEN conjunct2, THEN conjunct2, THEN conjunct2, THEN conjunct2, THEN mp,
          OF conjI[OF conv conjI[OF root threads_queries]]]
  obtain subs where
    log: "[ articlesWithThreads,
            queryGenerator threadsOfArticle [JNum 1],
            queryGenerator repliesOfComment [JNum 10],
            queryGenerator threadsOfArticle [JNum 2] ] = articlesWithThreads # subs" and
    asked: "\<forall>rootChunk \<in> set articles. \<forall>nm \<in> set (nestedManys articlesWithThreads).
              \<exists>vals. internalRelationalFieldValues rootChunk (internalIdentifierFields nm) = Some vals
                     \<and> queryGenerator nm vals \<in> set subs"
    by blast
  have first: "[(''id'', JNum 1), (''title'', JStr ''A'')] \<in> set articles"
    and second: "[(''id'', JNum 2), (''title'', JStr ''B'')] \<in> set articles"
    by (simp_all add: articles_def)
  have entry: "threadsOfArticle \<in> set (nestedManys articlesWithThreads)"
    by (simp add: articlesWithThreads_def)
  have ids: "internalIdentifierFields threadsOfArticle = [''id'']"
    by (simp add: threadsOfArticle_def)
  from asked first entry obtain vals1 where
    "internalRelationalFieldValues [(''id'', JNum 1), (''title'', JStr ''A'')]
       (internalIdentifierFields threadsOfArticle) = Some vals1"
    and "queryGenerator threadsOfArticle vals1 \<in> set subs" by blast
  then have one: "queryGenerator threadsOfArticle [JNum 1] \<in> set subs" by (simp add: ids)
  from asked second entry obtain vals2 where
    "internalRelationalFieldValues [(''id'', JNum 2), (''title'', JStr ''B'')]
       (internalIdentifierFields threadsOfArticle) = Some vals2"
    and "queryGenerator threadsOfArticle vals2 \<in> set subs" by blast
  then have two: "queryGenerator threadsOfArticle [JNum 2] \<in> set subs" by (simp add: ids)
  have run: "fst (snd (query (\<lambda>q. Inr articlesWithThreads) (recording threadsDatabase)
                         makeSubQueriesAndMergeWithRoot () ([], ())))
             = [ articlesWithThreads,
                 queryGenerator threadsOfArticle [JNum 1],
                 queryGenerator repliesOfComment [JNum 10],
                 queryGenerator threadsOfArticle [JNum 2] ]"
    by (simp only: threads_queries fst_conv snd_conv)
  from run log one two
  show "\<exists>subs. fst (snd (query (\<lambda>q. Inr articlesWithThreads) (recording threadsDatabase)
                         makeSubQueriesAndMergeWithRoot () ([], ())))
                = articlesWithThreads # subs
              \<and> queryGenerator threadsOfArticle [JNum 1] \<in> set subs
              \<and> queryGenerator threadsOfArticle [JNum 2] \<in> set subs"
    by metis
qed

end
